theory Spec2Isabelle
  imports Complex_Main "HOL-Library.Word"
begin

unbundle bit_operations_syntax

type_synonym u16 = "16 word"
type_synonym u32 = "32 word"
type_synonym u64 = "64 word"

section \<open>The HPET clock-event and clocksource driver\<close>

text \<open>
  The driver (the second part of \<^verbatim>\<open>src/arch/mips/include/asm/time.h\<close>, lines 80 to 386)
  works on two memory-mapped register windows: the HPET registers at
  \<^verbatim>\<open>hpet_mmio_base\<close> and the SMBus configuration space at \<^verbatim>\<open>SMBUS_CFG_BASE\<close>.
  Both are indexed here by the byte offset the code passes to \<^verbatim>\<open>hpet_read\<close>,
  \<^verbatim>\<open>hpet_write\<close>, \<^verbatim>\<open>smbus_read\<close> and \<^verbatim>\<open>smbus_write\<close> (a C \<^verbatim>\<open>int\<close>).
  Register values are 32-bit words: the code moves them between \<^verbatim>\<open>int\<close> and
  \<^verbatim>\<open>unsigned int\<close>, which keeps the bits.
\<close>

subsection \<open>Constants of the header asm/hpet.h\<close>

text \<open>
  The header \<^verbatim>\<open>asm/hpet.h\<close> is not among the sources. The register offsets and bit
  masks it defines are taken as parameters: every function of the driver receives the
  header \<open>H\<close>. \<^verbatim>\<open>HPET_MIN_CYCLES\<close> and the SMBus offsets are defined in the driver itself.
\<close>

record hpet_h =
  HPET_CFG :: int
  HPET_STATUS :: int
  HPET_COUNTER :: int
  HPET_T0_CFG :: int
  HPET_T0_CMP :: int
  HPET_CFG_ENABLE :: u32
  HPET_T0_IRS :: u32
  HPET_TN_LEVEL :: u32
  HPET_TN_ENABLE :: u32
  HPET_TN_PERIODIC :: u32
  HPET_TN_SETVAL :: u32
  HPET_TN_32BIT :: u32
  HPET_COMPARE_VAL :: u32
  HPET_ADDR :: u32

definition SMBUS_PCI_REG40 :: int where "SMBUS_PCI_REG40 = 0x40"
definition SMBUS_PCI_REG64 :: int where "SMBUS_PCI_REG64 = 0x64"
definition SMBUS_PCI_REGB4 :: int where "SMBUS_PCI_REGB4 = 0xb4"

definition HPET_MIN_CYCLES :: int where "HPET_MIN_CYCLES = 16"
definition HPET_MIN_PROG_DELTA :: int where "HPET_MIN_PROG_DELTA = HPET_MIN_CYCLES * 12"

subsection \<open>Machine state\<close>

datatype board_type = LS2H | LS7A | RS780E

datatype irqreturn = IRQ_NONE | IRQ_HANDLED

datatype errno = ETIME

text \<open>
  Everything the driver does to the outside is recorded, in order, in a trace: each
  register access with its offset and value, the busy-wait, the lock operations and the
  call of the per-processor event handler.
\<close>

datatype event =
    Hpet_rd int u32
  | Hpet_wr int u32
  | Smbus_rd int u32
  | Smbus_wr int u32
  | Udelay nat
  | Spin_lock
  | Spin_unlock
  | Event_handler nat

text \<open>
  \<open>hpet_regs\<close> and \<open>smbus_regs\<close> are the two register windows. A register keeps the
  value last written to it, with one exception: the main counter (the 64-bit value at
  \<^verbatim>\<open>HPET_COUNTER\<close> and \<^verbatim>\<open>HPET_COUNTER + 4\<close>) is free-running. While the enable bit of
  the general configuration register is set, the hardware advances it between any two
  accesses; by how much is not decided by the driver, so the amounts are an input,
  \<open>elapsed\<close>, one entry consumed at each access and at each delay (no entry left: no time
  passes). Other reactions of the device (raising status bits, clearing them on a
  write of one, clearing the set-value bit by itself) are not in the driver's code and
  are not modelled: the trace says what the driver wrote.

  \<open>hpet_irq_flags\<close> and \<open>pch_type\<close> (\<^verbatim>\<open>loongson_pch->type\<close>) are the two globals the
  modelled functions read. \<^verbatim>\<open>pr_info\<close> only prints and is left out.
\<close>

record machine =
  hpet_regs :: "int \<Rightarrow> u32"
  smbus_regs :: "int \<Rightarrow> u32"
  elapsed :: "u32 list"
  trace :: "event list"
  hpet_irq_flags :: u32
  pch_type :: board_type

definition hpet_running :: "hpet_h \<Rightarrow> (int \<Rightarrow> u32) \<Rightarrow> bool" where
  "hpet_running H r = (r (HPET_CFG H) AND HPET_CFG_ENABLE H \<noteq> 0)"

definition main_counter :: "hpet_h \<Rightarrow> (int \<Rightarrow> u32) \<Rightarrow> u64" where
  "main_counter H r =
     push_bit 32 (ucast (r (HPET_COUNTER H + 4))) OR ucast (r (HPET_COUNTER H))"

definition count_up :: "hpet_h \<Rightarrow> u32 \<Rightarrow> (int \<Rightarrow> u32) \<Rightarrow> (int \<Rightarrow> u32)" where
  "count_up H n r =
     (if hpet_running H r
      then let c = main_counter H r + ucast n
           in r(HPET_COUNTER H + 4 := ucast (drop_bit 32 c), HPET_COUNTER H := ucast c)
      else r)"

definition time_passes :: "hpet_h \<Rightarrow> machine \<Rightarrow> machine" where
  "time_passes H s =
     (case elapsed s of
        [] \<Rightarrow> s
      | n # ns \<Rightarrow> s\<lparr>hpet_regs := count_up H n (hpet_regs s), elapsed := ns\<rparr>)"

definition record_event :: "event \<Rightarrow> machine \<Rightarrow> machine" where
  "record_event e s = s\<lparr>trace := trace s @ [e]\<rparr>"

subsection \<open>Register access\<close>

definition smbus_read :: "hpet_h \<Rightarrow> int \<Rightarrow> machine \<Rightarrow> u32 \<times> machine" where
  "smbus_read H offset s =
     (let s1 = time_passes H s; v = smbus_regs s1 offset
      in (v, record_event (Smbus_rd offset v) s1))"

definition smbus_write :: "hpet_h \<Rightarrow> int \<Rightarrow> u32 \<Rightarrow> machine \<Rightarrow> machine" where
  "smbus_write H offset data s =
     (let s1 = time_passes H s
      in record_event (Smbus_wr offset data)
           (s1\<lparr>smbus_regs := (smbus_regs s1)(offset := data)\<rparr>))"

definition smbus_enable :: "hpet_h \<Rightarrow> int \<Rightarrow> u32 \<Rightarrow> machine \<Rightarrow> machine" where
  "smbus_enable H offset bit' s =
     (let (cfg, s1) = smbus_read H offset s;
          cfg = cfg OR bit'
      in smbus_write H offset cfg s1)"

definition hpet_read :: "hpet_h \<Rightarrow> int \<Rightarrow> machine \<Rightarrow> u32 \<times> machine" where
  "hpet_read H offset s =
     (let s1 = time_passes H s; v = hpet_regs s1 offset
      in (v, record_event (Hpet_rd offset v) s1))"

definition hpet_write :: "hpet_h \<Rightarrow> int \<Rightarrow> u32 \<Rightarrow> machine \<Rightarrow> machine" where
  "hpet_write H offset data s =
     (let s1 = time_passes H s
      in record_event (Hpet_wr offset data)
           (s1\<lparr>hpet_regs := (hpet_regs s1)(offset := data)\<rparr>))"

definition udelay :: "hpet_h \<Rightarrow> nat \<Rightarrow> machine \<Rightarrow> machine" where
  "udelay H usecs s = record_event (Udelay usecs) (time_passes H s)"

definition spin_lock :: "machine \<Rightarrow> machine" where
  "spin_lock s = record_event Spin_lock s"

definition spin_unlock :: "machine \<Rightarrow> machine" where
  "spin_unlock s = record_event Spin_unlock s"

subsection \<open>The counter\<close>

definition hpet_start_counter :: "hpet_h \<Rightarrow> machine \<Rightarrow> machine" where
  "hpet_start_counter H s =
     (let (cfg, s1) = hpet_read H (HPET_CFG H) s;
          cfg = cfg OR HPET_CFG_ENABLE H
      in hpet_write H (HPET_CFG H) cfg s1)"

definition hpet_stop_counter :: "hpet_h \<Rightarrow> machine \<Rightarrow> machine" where
  "hpet_stop_counter H s =
     (let (cfg, s1) = hpet_read H (HPET_CFG H) s;
          cfg = cfg AND NOT (HPET_CFG_ENABLE H)
      in hpet_write H (HPET_CFG H) cfg s1)"

definition hpet_reset_counter :: "hpet_h \<Rightarrow> machine \<Rightarrow> machine" where
  "hpet_reset_counter H s =
     (let s1 = hpet_write H (HPET_COUNTER H) 0 s
      in hpet_write H (HPET_COUNTER H + 4) 0 s1)"

definition hpet_restart_counter :: "hpet_h \<Rightarrow> machine \<Rightarrow> machine" where
  "hpet_restart_counter H s =
     (let s1 = hpet_stop_counter H s;
          s2 = hpet_reset_counter H s1
      in hpet_start_counter H s2)"

definition hpet_enable_legacy_int :: "machine \<Rightarrow> machine" where
  "hpet_enable_legacy_int s = s"

subsection \<open>The clock-event operations\<close>

definition hpet_set_state_periodic :: "hpet_h \<Rightarrow> machine \<Rightarrow> machine" where
  "hpet_set_state_periodic H s =
     (let s = spin_lock s;
          s = hpet_stop_counter H s;
          s = hpet_reset_counter H s;
          s = hpet_write H (HPET_T0_CMP H) 0 s;
          (cfg, s) = hpet_read H (HPET_T0_CFG H) s;
          cfg = cfg AND NOT (HPET_TN_LEVEL H);
          cfg = cfg OR (HPET_TN_ENABLE H OR HPET_TN_PERIODIC H OR HPET_TN_SETVAL H OR
                        HPET_TN_32BIT H OR hpet_irq_flags s);
          s = hpet_write H (HPET_T0_CFG H) cfg s;
          s = hpet_write H (HPET_T0_CMP H) (HPET_COMPARE_VAL H) s;
          s = udelay H 1 s;
          s = hpet_write H (HPET_T0_CMP H) (HPET_COMPARE_VAL H) s;
          s = hpet_start_counter H s
      in spin_unlock s)"

definition hpet_set_state_shutdown :: "hpet_h \<Rightarrow> machine \<Rightarrow> machine" where
  "hpet_set_state_shutdown H s =
     (let s = spin_lock s;
          (cfg, s) = hpet_read H (HPET_T0_CFG H) s;
          cfg = cfg AND NOT (HPET_TN_ENABLE H);
          s = hpet_write H (HPET_T0_CFG H) cfg s
      in spin_unlock s)"

definition hpet_set_state_oneshot :: "hpet_h \<Rightarrow> machine \<Rightarrow> machine" where
  "hpet_set_state_oneshot H s =
     (let s = spin_lock s;
          (cfg, s) = hpet_read H (HPET_T0_CFG H) s;
          cfg = cfg AND NOT (HPET_TN_PERIODIC H);
          cfg = cfg OR (HPET_TN_ENABLE H OR HPET_TN_32BIT H);
          s = hpet_write H (HPET_T0_CFG H) cfg s
      in spin_unlock s)"

definition hpet_tick_resume :: "machine \<Rightarrow> machine" where
  "hpet_tick_resume s =
     (let s = spin_lock s;
          s = hpet_enable_legacy_int s
      in spin_unlock s)"

text \<open>
  \<^verbatim>\<open>hpet_next_event\<close>: \<open>delta\<close> is an \<^verbatim>\<open>unsigned long\<close>, 64 bits wide on this
  platform; \<^verbatim>\<open>(u32) delta\<close> is \<open>ucast\<close>. \<open>res\<close> is the 32-bit difference read as a signed
  number (\<open>sint\<close>). The result is \<open>Inl ETIME\<close> for \<^verbatim>\<open>-ETIME\<close> and \<open>Inr ()\<close> for 0.
\<close>

definition hpet_next_event :: "hpet_h \<Rightarrow> u64 \<Rightarrow> machine \<Rightarrow> (errno + unit) \<times> machine" where
  "hpet_next_event H delta s =
     (let (cnt, s) = hpet_read H (HPET_COUNTER H) s;
          cnt = cnt + ucast delta;
          s = hpet_write H (HPET_T0_CMP H) cnt s;
          (now, s) = hpet_read H (HPET_COUNTER H) s;
          res = sint (cnt - now)
      in (if res < HPET_MIN_CYCLES then Inl ETIME else Inr (), s))"

text \<open>
  \<^verbatim>\<open>hpet_irq_handler\<close>: \<open>cpu\<close> is \<^verbatim>\<open>smp_processor_id()\<close>, and \<open>event_handler cpu\<close> is
  the callback \<^verbatim>\<open>cd->event_handler\<close> of that processor's clock-event device, which the
  clock-event framework installs. It may do anything to the machine, so it is a
  parameter; its call is recorded in the trace before it runs.
\<close>

definition hpet_irq_handler ::
  "hpet_h \<Rightarrow> (nat \<Rightarrow> machine \<Rightarrow> machine) \<Rightarrow> nat \<Rightarrow> machine \<Rightarrow> irqreturn \<times> machine" where
  "hpet_irq_handler H event_handler cpu s =
     (let (is_irq, s) = hpet_read H (HPET_STATUS H) s
      in if is_irq AND HPET_T0_IRS H \<noteq> 0
         then let s = hpet_write H (HPET_STATUS H) (HPET_T0_IRS H) s;
                  s = event_handler cpu (record_event (Event_handler cpu) s)
              in (IRQ_HANDLED, s)
         else (IRQ_NONE, s))"

subsection \<open>Setup and the clocksource operations\<close>

definition hpet_setup :: "hpet_h \<Rightarrow> machine \<Rightarrow> machine" where
  "hpet_setup H s =
     (let s = (if pch_type s = RS780E
               then let s = smbus_write H SMBUS_PCI_REGB4 (HPET_ADDR H) s;
                        s = smbus_enable H SMBUS_PCI_REG40 (push_bit 28 1) s
                    in smbus_enable H SMBUS_PCI_REG64 (push_bit 10 1) s
               else s)
      in hpet_enable_legacy_int s)"

definition hpet_read_counter :: "hpet_h \<Rightarrow> machine \<Rightarrow> u64 \<times> machine" where
  "hpet_read_counter H s =
     (let (v, s) = hpet_read H (HPET_COUNTER H) s in (ucast v, s))"

definition hpet_suspend :: "machine \<Rightarrow> machine" where
  "hpet_suspend s = s"

definition hpet_resume :: "hpet_h \<Rightarrow> machine \<Rightarrow> machine" where
  "hpet_resume H s =
     (let s = hpet_setup H s
      in hpet_restart_counter H s)"

text \<open>
  The header is well-formed for the driver when the registers the driver uses are
  different registers: the general configuration register, the two halves of the main
  counter, and the configuration and comparator registers of timer 0.
\<close>

definition registers_distinct :: "hpet_h \<Rightarrow> bool" where
  "registers_distinct H =
     distinct [HPET_CFG H, HPET_COUNTER H, HPET_COUNTER H + 4, HPET_T0_CFG H, HPET_T0_CMP H]"

text \<open>
  A header and a machine to run the driver on. The offsets and masks are example
  values, those of the usual HPET register layout. The machine starts with the given
  contents of the general configuration, status and timer-0 configuration registers and
  with the main counter at 1000; while the counter runs, its first three accesses find
  it advanced by 5, 7 and 9 ticks.
\<close>

definition example_hpet_h :: hpet_h where
  "example_hpet_h =
     \<lparr>HPET_CFG = 0x010, HPET_STATUS = 0x020, HPET_COUNTER = 0x0f0,
      HPET_T0_CFG = 0x100, HPET_T0_CMP = 0x108,
      HPET_CFG_ENABLE = 0x001, HPET_T0_IRS = 0x001,
      HPET_TN_LEVEL = 0x0002, HPET_TN_ENABLE = 0x0004, HPET_TN_PERIODIC = 0x0008,
      HPET_TN_SETVAL = 0x0040, HPET_TN_32BIT = 0x0100,
      HPET_COMPARE_VAL = 57275, HPET_ADDR = 0x20000\<rparr>"

definition example_machine :: "u32 \<Rightarrow> u32 \<Rightarrow> u32 \<Rightarrow> machine" where
  "example_machine cfg status t0_cfg =
     \<lparr>hpet_regs = (\<lambda>_. 0)(0x010 := cfg, 0x020 := status, 0x0f0 := 1000, 0x100 := t0_cfg),
      smbus_regs = (\<lambda>_. 0),
      elapsed = [5, 7, 9],
      trace = [],
      hpet_irq_flags = 0,
      pch_type = RS780E\<rparr>"

section \<open>The board environment resolver\<close>

text \<open>
  \<^verbatim>\<open>prom_init_env\<close> (\<^verbatim>\<open>src/arch/mips/loongson64/common/env.c\<close>) fills the global
  system configuration from what the firmware hands over. The build option
  \<^verbatim>\<open>CONFIG_LEFI_FIRMWARE_INTERFACE\<close> decides which of two formats \<^verbatim>\<open>fw_arg2\<close> points
  to: without it, an array of pointers to \<^verbatim>\<open>key=value\<close> strings that ends with a null
  pointer; with it, a table of offsets to the structures \<^verbatim>\<open>esys\<close>, \<^verbatim>\<open>ecpu\<close>,
  \<^verbatim>\<open>eboard\<close> and \<^verbatim>\<open>eirq_source\<close>.
\<close>

subsection \<open>C strings\<close>

text \<open>
  A C string is modelled by the list of its bytes before the terminating NUL. The
  functions \<^verbatim>\<open>strlen\<close>, \<^verbatim>\<open>strncmp\<close> and \<^verbatim>\<open>strstr\<close> are the ones of the C library (the
  kernel's \<^verbatim>\<open>lib/string.c\<close>, which is not among the sources) with their standard
  meaning: \<^verbatim>\<open>strncmp\<close> compares at most \<open>count\<close> bytes as unsigned numbers and stops
  after a NUL; \<^verbatim>\<open>strstr\<close> returns the first place where the bytes of \<open>s2\<close> occur in
  \<open>s1\<close>, or the null pointer (\<open>None\<close>). Both compare bytes exactly.
\<close>

definition strlen :: "string \<Rightarrow> nat" where
  "strlen s = length s"

definition byte_at :: "string \<Rightarrow> nat" where
  "byte_at s = (case s of [] \<Rightarrow> 0 | c # _ \<Rightarrow> of_char c)"

fun strncmp :: "string \<Rightarrow> string \<Rightarrow> nat \<Rightarrow> int" where
  "strncmp cs ct 0 = 0"
| "strncmp cs ct (Suc count) =
     (let c1 = byte_at cs; c2 = byte_at ct
      in if c1 \<noteq> c2 then (if c1 < c2 then - 1 else 1)
         else if c1 = 0 then 0
         else strncmp (tl cs) (tl ct) count)"

fun strstr :: "string \<Rightarrow> string \<Rightarrow> string option" where
  "strstr [] s2 = (if s2 = [] then Some [] else None)"
| "strstr (c # s1) s2 =
     (if take (length s2) (c # s1) = s2 then Some (c # s1) else strstr s1 s2)"

text \<open>
  Modelled from the spec: the digits of \<^verbatim>\<open>kstrtou32\<close> (the kernel's
  \<^verbatim>\<open>lib/kstrtox.c\<close> is not among the sources). The specification says of the legacy
  path: "parse the decimal numeric suffix and store it". \<open>digit_val\<close> is the value of
  a decimal digit, \<open>parse_integer\<close> reads digits for as long as there are any and
  returns the number read so far and the rest of the string.
\<close>

definition digit_val :: "char \<Rightarrow> nat option" where
  "digit_val c = map_of (zip ''0123456789'' [0, 1, 2, 3, 4, 5, 6, 7, 8, 9]) c"

fun parse_integer :: "string \<Rightarrow> nat \<Rightarrow> nat \<times> string" where
  "parse_integer [] res = (res, [])"
| "parse_integer (c # s) res =
     (case digit_val c of
        None \<Rightarrow> (res, c # s)
      | Some val \<Rightarrow> parse_integer s (res * 10 + val))"

text \<open>
  Modelled from the spec: \<^verbatim>\<open>kstrtou32\<close> (the kernel's \<^verbatim>\<open>lib/kstrtox.c\<close>) is not among
  the sources. The specification says of the legacy path: "parse the decimal numeric
  suffix and store it". The model reads an unsigned decimal number: an optional
  \<^verbatim>\<open>+\<close>, at least one decimal digit, an optional final newline and nothing else; the
  number must fit 32 bits. \<open>None\<close> stands for an error return, after which the caller's
  variable is unchanged.
\<close>

definition kstrtou32 :: "string \<Rightarrow> u32 option" where
  "kstrtou32 s =
     (let s = (case s of [] \<Rightarrow> s | c # t \<Rightarrow> if c = CHR ''+'' then t else s);
          (res, rest) = parse_integer s 0;
          rv = length s - length rest;
          rest = (case rest of [] \<Rightarrow> rest | c # t \<Rightarrow> if c = CHR 0x0A then t else rest)
      in if rv = 0 then None
         else if rest \<noteq> [] then None
         else if res \<ge> 2 ^ 32 then None
         else Some (of_nat res))"

text \<open>
  The macro \<^verbatim>\<open>parse_even_earlier(res, option, p)\<close>. The result of \<^verbatim>\<open>kstrtou32\<close> is
  ignored, so a string that does not parse leaves \<open>res\<close> as it was. The number is
  looked for \<^verbatim>\<open>strlen(option "=")\<close> bytes into \<open>p\<close>; for a \<open>p\<close> shorter than that
  the C code reads beyond the string, and the model reads the empty string.
\<close>

definition parse_even_earlier :: "u32 \<Rightarrow> string \<Rightarrow> string \<Rightarrow> u32" where
  "parse_even_earlier res option p =
     (if strncmp option p (strlen option) = 0
      then (case kstrtou32 (drop (strlen (option @ ''='')) p) of
              Some v \<Rightarrow> v
            | None \<Rightarrow> res)
      else res)"

subsection \<open>Build constants\<close>

text \<open>
  The headers that define these constants (\<^verbatim>\<open>boot_param.h\<close>, \<^verbatim>\<open>workarounds.h\<close>,
  \<^verbatim>\<open>asm/cpu.h\<close>) and the kernel configuration are not among the sources; the constants
  are parameters. \<open>CONFIG_KEXEC\<close> is the build option of that name.
\<close>

record env_h =
  NR_CPUS :: u32
  MAX_UARTS :: u32
  MAX_SENSORS :: u32
  WORKAROUND_CPUFREQ :: u64
  WORKAROUND_CPUHOTPLUG :: u64
  CONFIG_KEXEC :: bool
  PRID_REV_MASK :: u32
  PRID_REV_LOONGSON2E :: u32
  PRID_REV_LOONGSON2F :: u32
  PRID_REV_LOONGSON3A_R1 :: u32
  PRID_REV_LOONGSON3A_R2_0 :: u32
  PRID_REV_LOONGSON3A_R2_1 :: u32
  PRID_REV_LOONGSON3A_R3_0 :: u32
  PRID_REV_LOONGSON3A_R3_1 :: u32
  PRID_REV_LOONGSON3B_R1 :: u32
  PRID_REV_LOONGSON3B_R2 :: u32

subsection \<open>Firmware tables and the system configuration\<close>

text \<open>
  \<^verbatim>\<open>enum loongson_cpu_type\<close>: the four enumerators the code names, and any other value
  the firmware may report.
\<close>

datatype loongson_cpu_type =
  Legacy_3A | Loongson_3A | Legacy_3B | Loongson_3B | Other_cpu_type nat

text \<open>
  The structures the firmware fills, with the fields \<^verbatim>\<open>prom_init_env\<close> reads; a field
  \<^verbatim>\<open>ecpu->nr_cpus\<close> is \<open>ecpu_nr_cpus\<close>, and so on. The descriptors of UARTs and sensors
  are copied as they are, so their types are left open (\<open>'u\<close>, \<open>'s\<close>); the arrays are
  lists. Following the offsets from \<^verbatim>\<open>fw_arg2\<close> to the structures is a matter of
  memory layout and not modelled: \<open>boot_params\<close> holds the structures themselves,
  \<open>at_system_offset\<close> the one that \<^verbatim>\<open>esys\<close> points to, and so on.
\<close>

record efi_cpuinfo_loongson =
  ecpu_cputype :: loongson_cpu_type
  ecpu_cpu_startup_core_id :: u16
  ecpu_reserved_cores_mask :: u16
  ecpu_cpu_clock_freq :: u32
  ecpu_nr_cpus :: u32

record ('u, 's) system_loongson =
  esys_vers :: u16
  esys_nr_uarts :: u32
  esys_uarts :: "'u list"
  esys_nr_sensors :: u32
  esys_sensors :: "'s list"
  esys_has_ec :: bool
  esys_ec_name :: string
  esys_workarounds :: u64
  esys_of_dtb_addr :: u64

record board_devices =
  eboard_name :: string

record irq_source_routing_table =
  eirq_pci_mem_start_addr :: u64
  eirq_pci_mem_end_addr :: u64
  eirq_pci_io_start_addr :: u64
  eirq_dma_mask_bits :: u32
  eirq_dma_noncoherent :: u16

record ('u, 's) boot_params =
  at_system_offset :: "('u, 's) system_loongson"
  at_cpu_offset :: efi_cpuinfo_loongson
  at_boarddev_table_offset :: board_devices
  at_irq_offset :: irq_source_routing_table
  reset_system_ResetWarm :: u64
  reset_system_Shutdown :: u64
  reset_system_DoSuspend :: u64
  efi_smbios_vga_bios :: u64

text \<open>What \<^verbatim>\<open>fw_arg2\<close> points to, in the two builds.\<close>

datatype ('u, 's) fw_arg =
    Prom_envp "string list"
  | Lefi_boot_params "('u, 's) boot_params"

text \<open>The hubs \<^verbatim>\<open>loongson_pch\<close> can point to, and the device trees.\<close>

datatype platform_controller_hub = dummy_pch | ls2h_pch | ls7a_pch | rs780_pch

datatype fdt_blob =
    dtb_loongson3_ls2h_begin
  | dtb_loongson3_ls7a_begin
  | dtb_loongson3_rs780_begin
  | Fdt_at u64

text \<open>\<^verbatim>\<open>struct loongson_system_configuration\<close>, with the fields the function writes.\<close>

record ('u, 's) loongson_system_configuration =
  nr_cpus :: u32
  nr_nodes :: u32
  cores_per_node :: u32
  cores_per_package :: u32
  boot_cpu_id :: u16
  reserved_cpus_mask :: u16
  cputype :: loongson_cpu_type
  ht_control_base :: u64
  pci_mem_start_addr :: u64
  pci_mem_end_addr :: u64
  pci_io_base :: u64
  restart_addr :: u64
  poweroff_addr :: u64
  suspend_addr :: u64
  vgabios_addr :: u64
  dma_mask_bits :: u32
  ecname :: string
  nr_uarts :: u32
  uarts :: "'u list"
  nr_sensors :: u32
  sensors :: "'s list"
  workarounds :: u64
  ec_sci_irq :: u32

text \<open>
  The globals \<^verbatim>\<open>prom_init_env\<close> writes. The address tables are functions of the index.
  \<^verbatim>\<open>cpu_full_name\<close> and the text appended to it at the end of the function are left
  out, and so are the messages printed.
\<close>

record ('u, 's) env =
  cpu_clock_freq :: u32
  memsize :: u32
  highmemsize :: u32
  mips_cpu_frequency :: u32
  loongson_sysconf :: "('u, 's) loongson_system_configuration"
  loongson_pch :: "platform_controller_hub option"
  loongson_fdt_blob :: "fdt_blob option"
  smp_group :: "nat \<Rightarrow> u64"
  loongson_chipcfg :: "nat \<Rightarrow> u64"
  loongson_chiptemp :: "nat \<Rightarrow> u64"
  loongson_freqctrl :: "nat \<Rightarrow> u64"
  hw_coherentio :: bool

subsection \<open>The legacy argument list\<close>

text \<open>
  Lines 61 to 82. The loop over \<^verbatim>\<open>_prom_envp\<close> runs until the null pointer; the list
  \<open>envp\<close> holds the strings before it.
\<close>

fun prom_envp_loop :: "string list \<Rightarrow> ('u, 's) env \<Rightarrow> ('u, 's) env" where
  "prom_envp_loop [] g = g"
| "prom_envp_loop (l # envp) g =
     (let g = g\<lparr>cpu_clock_freq := parse_even_earlier (cpu_clock_freq g) ''cpuclock'' l\<rparr>;
          g = g\<lparr>memsize := parse_even_earlier (memsize g) ''memsize'' l\<rparr>;
          g = g\<lparr>highmemsize := parse_even_earlier (highmemsize g) ''highmemsize'' l\<rparr>
      in prom_envp_loop envp g)"

definition prom_init_env_legacy :: "string list \<Rightarrow> ('u, 's) env \<Rightarrow> ('u, 's) env" where
  "prom_init_env_legacy envp g =
     (let g = prom_envp_loop envp g;
          g = (if memsize g = 0 then g\<lparr>memsize := 256\<rparr> else g);
          g = g\<lparr>loongson_pch := Some dummy_pch\<rparr>
      in g\<lparr>loongson_sysconf := (loongson_sysconf g)\<lparr>nr_uarts := 1\<rparr>\<rparr>)"

subsection \<open>The firmware tables\<close>

text \<open>
  \<^verbatim>\<open>memcpy\<close> of the first \<open>n\<close> elements of an array into another. In the C code both
  arrays have at least \<open>n\<close> elements.
\<close>

definition memcpy :: "'a list \<Rightarrow> 'a list \<Rightarrow> nat \<Rightarrow> 'a list" where
  "memcpy dest src n = take n src @ drop n dest"

text \<open>
  Lines 107 to 176: the clock, the CPU type with its tables, and the numbers of CPUs
  and nodes. \<open>ebase_cpunum\<close> is the value of \<^verbatim>\<open>get_ebase_cpunum()\<close>, read only in a
  build with \<^verbatim>\<open>CONFIG_KEXEC\<close>. The arithmetic of \<open>nr_nodes\<close> is the one of
  \<^verbatim>\<open>unsigned int\<close>.
\<close>

definition prom_init_env_cpu ::
  "env_h \<Rightarrow> efi_cpuinfo_loongson \<Rightarrow> u32 \<Rightarrow> ('u, 's) env \<Rightarrow> ('u, 's) env" where
  "prom_init_env_cpu K ecpu ebase_cpunum g =
     (let g = g\<lparr>cpu_clock_freq := ecpu_cpu_clock_freq ecpu\<rparr>;
          g = g\<lparr>loongson_sysconf := (loongson_sysconf g)\<lparr>cputype := ecpu_cputype ecpu\<rparr>\<rparr>;
          g = (if ecpu_cputype ecpu = Legacy_3A \<or> ecpu_cputype ecpu = Loongson_3A then
                 g\<lparr>loongson_sysconf := (loongson_sysconf g)
                      \<lparr>cores_per_node := 4, cores_per_package := 4,
                       ht_control_base := 0x90000EFDFB000000,
                       workarounds := WORKAROUND_CPUFREQ K\<rparr>,
                   smp_group := (smp_group g)
                      (0 := 0x900000003ff01000, 1 := 0x900010003ff01000,
                       2 := 0x900020003ff01000, 3 := 0x900030003ff01000),
                   loongson_chipcfg := (loongson_chipcfg g)
                      (0 := 0x900000001fe00180, 1 := 0x900010001fe00180,
                       2 := 0x900020001fe00180, 3 := 0x900030001fe00180),
                   loongson_chiptemp := (loongson_chiptemp g)
                      (0 := 0x900000001fe0019c, 1 := 0x900010001fe0019c,
                       2 := 0x900020001fe0019c, 3 := 0x900030001fe0019c),
                   loongson_freqctrl := (loongson_freqctrl g)
                      (0 := 0x900000001fe001d0, 1 := 0x900010001fe001d0,
                       2 := 0x900020001fe001d0, 3 := 0x900030001fe001d0)\<rparr>
               else if ecpu_cputype ecpu = Legacy_3B \<or> ecpu_cputype ecpu = Loongson_3B then
                 g\<lparr>loongson_sysconf := (loongson_sysconf g)
                      \<lparr>cores_per_node := 4, cores_per_package := 8,
                       ht_control_base := 0x90001EFDFB000000,
                       workarounds := WORKAROUND_CPUHOTPLUG K\<rparr>,
                   smp_group := (smp_group g)
                      (0 := 0x900000003ff01000, 1 := 0x900010003ff05000,
                       2 := 0x900020003ff09000, 3 := 0x900030003ff0d000),
                   loongson_chipcfg := (loongson_chipcfg g)
                      (0 := 0x900000001fe00180, 1 := 0x900020001fe00180,
                       2 := 0x900040001fe00180, 3 := 0x900060001fe00180),
                   loongson_chiptemp := (loongson_chiptemp g)
                      (0 := 0x900000001fe0019c, 1 := 0x900020001fe0019c,
                       2 := 0x900040001fe0019c, 3 := 0x900060001fe0019c),
                   loongson_freqctrl := (loongson_freqctrl g)
                      (0 := 0x900000001fe001d0, 1 := 0x900020001fe001d0,
                       2 := 0x900040001fe001d0, 3 := 0x900060001fe001d0)\<rparr>
               else
                 g\<lparr>loongson_sysconf := (loongson_sysconf g)
                      \<lparr>cores_per_node := 1, cores_per_package := 1\<rparr>,
                   loongson_chipcfg := (loongson_chipcfg g)(0 := 0x900000001fe00180)\<rparr>);
          c = loongson_sysconf g;
          c = c\<lparr>nr_cpus := ecpu_nr_cpus ecpu\<rparr>;
          c = c\<lparr>boot_cpu_id := ecpu_cpu_startup_core_id ecpu\<rparr>;
          c = c\<lparr>reserved_cpus_mask := ecpu_reserved_cores_mask ecpu\<rparr>;
          c = (if CONFIG_KEXEC K
               then let c = c\<lparr>boot_cpu_id := ucast ebase_cpunum\<rparr>
                    in c\<lparr>reserved_cpus_mask :=
                          foldl (\<lambda>m i. m OR ucast (push_bit i (1 :: u32)))
                            (reserved_cpus_mask c) [0 ..< unat (boot_cpu_id c)]\<rparr>
               else c);
          c = (if ecpu_nr_cpus ecpu > NR_CPUS K \<or> ecpu_nr_cpus ecpu = 0
               then c\<lparr>nr_cpus := NR_CPUS K\<rparr> else c);
          c = c\<lparr>nr_nodes := (nr_cpus c + cores_per_node c - 1) div cores_per_node c\<rparr>
      in g\<lparr>loongson_sysconf := c\<rparr>)"

text \<open>Lines 182 to 190: the PCI windows and the DMA mask.\<close>

definition prom_init_env_bus ::
  "irq_source_routing_table \<Rightarrow> ('u, 's) env \<Rightarrow> ('u, 's) env" where
  "prom_init_env_bus eirq g =
     (let c = loongson_sysconf g;
          c = c\<lparr>pci_mem_start_addr := eirq_pci_mem_start_addr eirq\<rparr>;
          c = c\<lparr>pci_mem_end_addr := eirq_pci_mem_end_addr eirq\<rparr>;
          c = c\<lparr>pci_io_base := eirq_pci_io_start_addr eirq\<rparr>;
          c = c\<lparr>dma_mask_bits := eirq_dma_mask_bits eirq\<rparr>;
          c = (if dma_mask_bits c < 32 \<or> dma_mask_bits c > 64
               then c\<lparr>dma_mask_bits := 32\<rparr> else c)
      in g\<lparr>loongson_sysconf := c, hw_coherentio := (eirq_dma_noncoherent eirq = 0)\<rparr>)"

text \<open>Lines 192 to 206: the hub, by the name of the board, and the device tree.\<close>

definition prom_init_env_pch ::
  "board_devices \<Rightarrow> ('u, 's) system_loongson \<Rightarrow> ('u, 's) env \<Rightarrow> ('u, 's) env" where
  "prom_init_env_pch eboard esys g =
     (let g = (if strstr (eboard_name eboard) ''2H'' \<noteq> None then
                 g\<lparr>loongson_pch := Some ls2h_pch,
                   loongson_sysconf := (loongson_sysconf g)\<lparr>ec_sci_irq := 0x80\<rparr>,
                   loongson_fdt_blob := Some dtb_loongson3_ls2h_begin\<rparr>
               else if strstr (eboard_name eboard) ''7A'' \<noteq> None then
                 g\<lparr>loongson_pch := Some ls7a_pch,
                   loongson_sysconf := (loongson_sysconf g)\<lparr>ec_sci_irq := 0x07\<rparr>,
                   loongson_fdt_blob := Some dtb_loongson3_ls7a_begin\<rparr>
               else
                 g\<lparr>loongson_pch := Some rs780_pch,
                   loongson_sysconf := (loongson_sysconf g)\<lparr>ec_sci_irq := 0x07\<rparr>,
                   loongson_fdt_blob := Some dtb_loongson3_rs780_begin\<rparr>)
      in if esys_vers esys \<ge> 2 \<and> esys_of_dtb_addr esys \<noteq> 0
         then g\<lparr>loongson_fdt_blob := Some (Fdt_at (esys_of_dtb_addr esys))\<rparr>
         else g)"

text \<open>
  Lines 208 to 233: the reset addresses, the name of the embedded controller, the
  workarounds, and the tables of UARTs and sensors.
\<close>

definition prom_init_env_sys ::
  "env_h \<Rightarrow> ('u, 's) boot_params \<Rightarrow> ('u, 's) env \<Rightarrow> ('u, 's) env" where
  "prom_init_env_sys K boot_p g =
     (let esys = at_system_offset boot_p;
          c = loongson_sysconf g;
          c = c\<lparr>restart_addr := reset_system_ResetWarm boot_p\<rparr>;
          c = c\<lparr>poweroff_addr := reset_system_Shutdown boot_p\<rparr>;
          c = c\<lparr>suspend_addr := reset_system_DoSuspend boot_p\<rparr>;
          c = c\<lparr>vgabios_addr := efi_smbios_vga_bios boot_p\<rparr>;
          c = c\<lparr>ecname := replicate 32 (CHR 0x00)\<rparr>;
          c = (if esys_has_ec esys
               then c\<lparr>ecname := memcpy (ecname c) (esys_ec_name esys) 32\<rparr> else c);
          c = c\<lparr>workarounds := workarounds c OR esys_workarounds esys\<rparr>;
          c = c\<lparr>nr_uarts := esys_nr_uarts esys\<rparr>;
          c = (if esys_nr_uarts esys < 1 \<or> esys_nr_uarts esys > MAX_UARTS K
               then c\<lparr>nr_uarts := 1\<rparr> else c);
          c = c\<lparr>uarts := memcpy (uarts c) (esys_uarts esys) (unat (nr_uarts c))\<rparr>;
          c = c\<lparr>nr_sensors := esys_nr_sensors esys\<rparr>;
          c = (if nr_sensors c > MAX_SENSORS K then c\<lparr>nr_sensors := 0\<rparr> else c);
          c = (if nr_sensors c \<noteq> 0
               then c\<lparr>sensors := memcpy (sensors c) (esys_sensors esys) (unat (nr_sensors c))\<rparr>
               else c)
      in g\<lparr>loongson_sysconf := c\<rparr>)"

definition prom_init_env_lefi ::
  "env_h \<Rightarrow> ('u, 's) boot_params \<Rightarrow> u32 \<Rightarrow> ('u, 's) env \<Rightarrow> ('u, 's) env" where
  "prom_init_env_lefi K boot_p ebase_cpunum g =
     (let esys = at_system_offset boot_p;
          ecpu = at_cpu_offset boot_p;
          eboard = at_boarddev_table_offset boot_p;
          eirq_source = at_irq_offset boot_p;
          g = prom_init_env_cpu K ecpu ebase_cpunum g;
          g = prom_init_env_bus eirq_source g;
          g = prom_init_env_pch eboard esys g
      in prom_init_env_sys K boot_p g)"

subsection \<open>The clock frequency, and the whole function\<close>

text \<open>
  Lines 235 to 260. \<open>processor_id\<close> is \<^verbatim>\<open>current_cpu_data.processor_id\<close>. The
  \<^verbatim>\<open>switch\<close> takes the first label that is equal.
\<close>

definition prom_init_env_clock :: "env_h \<Rightarrow> u32 \<Rightarrow> ('u, 's) env \<Rightarrow> ('u, 's) env" where
  "prom_init_env_clock K processor_id g =
     (let g = (if cpu_clock_freq g = 0
               then let rev = processor_id AND PRID_REV_MASK K
                    in g\<lparr>cpu_clock_freq :=
                          (if rev = PRID_REV_LOONGSON2E K then 533080000
                           else if rev = PRID_REV_LOONGSON2F K then 797000000
                           else if rev = PRID_REV_LOONGSON3A_R1 K
                                 \<or> rev = PRID_REV_LOONGSON3A_R2_0 K
                                 \<or> rev = PRID_REV_LOONGSON3A_R2_1 K
                                 \<or> rev = PRID_REV_LOONGSON3A_R3_0 K
                                 \<or> rev = PRID_REV_LOONGSON3A_R3_1 K then 900000000
                           else if rev = PRID_REV_LOONGSON3B_R1 K
                                 \<or> rev = PRID_REV_LOONGSON3B_R2 K then 1000000000
                           else 100000000)\<rparr>
               else g)
      in g\<lparr>mips_cpu_frequency := cpu_clock_freq g\<rparr>)"

definition prom_init_env ::
  "env_h \<Rightarrow> ('u, 's) fw_arg \<Rightarrow> u32 \<Rightarrow> u32 \<Rightarrow> ('u, 's) env \<Rightarrow> ('u, 's) env" where
  "prom_init_env K fw_arg2 processor_id ebase_cpunum g =
     (let g = (case fw_arg2 of
                 Prom_envp envp \<Rightarrow> prom_init_env_legacy envp g
               | Lefi_boot_params boot_p \<Rightarrow> prom_init_env_lefi K boot_p ebase_cpunum g)
      in prom_init_env_clock K processor_id g)"

subsection \<open>What the claims compare the code with\<close>

text \<open>The decimal digits of a number, as \<^verbatim>\<open>%u\<close> prints it.\<close>

definition digit_char :: "nat \<Rightarrow> char" where
  "digit_char d = ''0123456789'' ! d"

fun decimal :: "nat \<Rightarrow> string" where
  "decimal n =
     (if n < 10 then [digit_char n] else decimal (n div 10) @ [digit_char (n mod 10)])"

text \<open>A string occurs in another one.\<close>

definition contains :: "string \<Rightarrow> string \<Rightarrow> bool" where
  "contains s key = (\<exists>pre post. s = pre @ key @ post)"

text \<open>
  The selection of the hub as the specification words it, with a match that ignores
  the case of letters: both strings are compared in upper case.
\<close>

definition to_upper :: "char \<Rightarrow> char" where
  "to_upper c =
     (case map_of (zip ''abcdefghijklmnopqrstuvwxyz'' ''ABCDEFGHIJKLMNOPQRSTUVWXYZ'') c of
        Some u \<Rightarrow> u
      | None \<Rightarrow> c)"

definition contains_ignoring_case :: "string \<Rightarrow> string \<Rightarrow> bool" where
  "contains_ignoring_case s key = (strstr (map to_upper s) (map to_upper key) \<noteq> None)"

definition spec_hub_ignoring_case :: "string \<Rightarrow> platform_controller_hub \<times> u32" where
  "spec_hub_ignoring_case name =
     (if contains_ignoring_case name ''2H'' then (ls2h_pch, 0x80)
      else if contains_ignoring_case name ''7A'' then (ls7a_pch, 0x07)
      else (rs780_pch, 0x07))"

text \<open>
  Constants, globals and firmware tables to run the function on: example values of the
  constants, for a build with at most 16 CPUs and tables of 64 UARTs and 64 sensors;
  the globals as they are when the kernel starts (all zero but the first configuration
  address); and tables that describe a board of the given name, CPU type and numbers of
  CPUs, UARTs and sensors.
\<close>

definition example_env_h :: env_h where
  "example_env_h =
     \<lparr>NR_CPUS = 16, MAX_UARTS = 64, MAX_SENSORS = 64,
      WORKAROUND_CPUFREQ = 1, WORKAROUND_CPUHOTPLUG = 2, CONFIG_KEXEC = False,
      PRID_REV_MASK = 0x00ff,
      PRID_REV_LOONGSON2E = 0x0002, PRID_REV_LOONGSON2F = 0x0003,
      PRID_REV_LOONGSON3A_R1 = 0x0005, PRID_REV_LOONGSON3A_R2_0 = 0x0008,
      PRID_REV_LOONGSON3A_R2_1 = 0x000c, PRID_REV_LOONGSON3A_R3_0 = 0x0009,
      PRID_REV_LOONGSON3A_R3_1 = 0x000d,
      PRID_REV_LOONGSON3B_R1 = 0x0006, PRID_REV_LOONGSON3B_R2 = 0x0007\<rparr>"

definition boot_env :: "(nat, nat) env" where
  "boot_env =
     \<lparr>cpu_clock_freq = 0, memsize = 0, highmemsize = 0, mips_cpu_frequency = 0,
      loongson_sysconf =
        \<lparr>nr_cpus = 0, nr_nodes = 0, cores_per_node = 0, cores_per_package = 0,
         boot_cpu_id = 0, reserved_cpus_mask = 0, cputype = Other_cpu_type 0,
         ht_control_base = 0, pci_mem_start_addr = 0, pci_mem_end_addr = 0,
         pci_io_base = 0, restart_addr = 0, poweroff_addr = 0, suspend_addr = 0,
         vgabios_addr = 0, dma_mask_bits = 0, ecname = replicate 32 (CHR 0x00),
         nr_uarts = 0, uarts = replicate 64 0, nr_sensors = 0, sensors = replicate 64 0,
         workarounds = 0, ec_sci_irq = 0\<rparr>,
      loongson_pch = None, loongson_fdt_blob = None,
      smp_group = (\<lambda>_. 0), loongson_chipcfg = (\<lambda>_. 0)(0 := 0xffffffffbfc00180),
      loongson_chiptemp = (\<lambda>_. 0), loongson_freqctrl = (\<lambda>_. 0),
      hw_coherentio = False\<rparr>"

definition example_boot_params ::
  "string \<Rightarrow> loongson_cpu_type \<Rightarrow> u32 \<Rightarrow> u32 \<Rightarrow> u32 \<Rightarrow> (nat, nat) boot_params" where
  "example_boot_params name cpu cpus n_uarts n_sensors =
     \<lparr>at_system_offset =
        \<lparr>esys_vers = 1, esys_nr_uarts = n_uarts, esys_uarts = [1 ..< 65],
              esys_nr_sensors = n_sensors, esys_sensors = [101 ..< 165],
              esys_has_ec = False, esys_ec_name = replicate 32 (CHR 0x00),
              esys_workarounds = 0, esys_of_dtb_addr = 0\<rparr>,
      at_cpu_offset =
        \<lparr>ecpu_cputype = cpu, ecpu_cpu_startup_core_id = 0,
              ecpu_reserved_cores_mask = 0, ecpu_cpu_clock_freq = 1000000000,
              ecpu_nr_cpus = cpus\<rparr>,
      at_boarddev_table_offset = \<lparr>eboard_name = name\<rparr>,
      at_irq_offset = \<lparr>eirq_pci_mem_start_addr = 0x40000000, eirq_pci_mem_end_addr = 0x7fffffff,
                     eirq_pci_io_start_addr = 0xefdfc000000, eirq_dma_mask_bits = 64,
                     eirq_dma_noncoherent = 0\<rparr>,
      reset_system_ResetWarm = 0, reset_system_Shutdown = 0, reset_system_DoSuspend = 0,
      efi_smbios_vga_bios = 0\<rparr>"
section \<open>Properties of the HPET driver\<close>

subsection \<open>Register accesses, one at a time\<close>

lemma time_passes_fields [simp]:
  "trace (time_passes H s) = trace s"
  "smbus_regs (time_passes H s) = smbus_regs s"
  "hpet_irq_flags (time_passes H s) = hpet_irq_flags s"
  "pch_type (time_passes H s) = pch_type s"
  by (simp_all add: time_passes_def split: list.splits)

lemma count_up_other:
  "a \<noteq> HPET_COUNTER H \<Longrightarrow> a \<noteq> HPET_COUNTER H + 4 \<Longrightarrow> count_up H n r a = r a"
  by (simp add: count_up_def Let_def)

lemma count_up_stopped: "\<not> hpet_running H r \<Longrightarrow> count_up H n r = r"
  by (simp add: count_up_def)

lemma time_passes_other:
  "a \<noteq> HPET_COUNTER H \<Longrightarrow> a \<noteq> HPET_COUNTER H + 4 \<Longrightarrow>
   hpet_regs (time_passes H s) a = hpet_regs s a"
  by (simp add: time_passes_def count_up_other split: list.splits)

lemma time_passes_stopped:
  "\<not> hpet_running H (hpet_regs s) \<Longrightarrow> hpet_regs (time_passes H s) = hpet_regs s"
  by (simp add: time_passes_def count_up_stopped split: list.splits)

lemma hpet_read_regs: "hpet_regs (snd (hpet_read H a s)) = hpet_regs (time_passes H s)"
  by (simp add: hpet_read_def record_event_def Let_def)

lemma hpet_read_fields [simp]:
  "trace (snd (hpet_read H a s)) = trace s @ [Hpet_rd a (fst (hpet_read H a s))]"
  "smbus_regs (snd (hpet_read H a s)) = smbus_regs s"
  "hpet_irq_flags (snd (hpet_read H a s)) = hpet_irq_flags s"
  "pch_type (snd (hpet_read H a s)) = pch_type s"
  by (simp_all add: hpet_read_def record_event_def Let_def)

lemma fst_hpet_read: "fst (hpet_read H a s) = hpet_regs (time_passes H s) a"
  by (simp add: hpet_read_def Let_def)

lemma hpet_write_regs: "hpet_regs (hpet_write H a v s) = (hpet_regs (time_passes H s))(a := v)"
  by (simp add: hpet_write_def record_event_def Let_def)

lemma hpet_write_fields [simp]:
  "trace (hpet_write H a v s) = trace s @ [Hpet_wr a v]"
  "smbus_regs (hpet_write H a v s) = smbus_regs s"
  "hpet_irq_flags (hpet_write H a v s) = hpet_irq_flags s"
  "pch_type (hpet_write H a v s) = pch_type s"
  by (simp_all add: hpet_write_def record_event_def Let_def)

lemma udelay_regs: "hpet_regs (udelay H n s) = hpet_regs (time_passes H s)"
  by (simp add: udelay_def record_event_def)

lemma udelay_fields [simp]:
  "trace (udelay H n s) = trace s @ [Udelay n]"
  "smbus_regs (udelay H n s) = smbus_regs s"
  "hpet_irq_flags (udelay H n s) = hpet_irq_flags s"
  "pch_type (udelay H n s) = pch_type s"
  by (simp_all add: udelay_def record_event_def)

lemma spin_fields [simp]:
  "trace (spin_lock s) = trace s @ [Spin_lock]"
  "hpet_regs (spin_lock s) = hpet_regs s"
  "smbus_regs (spin_lock s) = smbus_regs s"
  "hpet_irq_flags (spin_lock s) = hpet_irq_flags s"
  "pch_type (spin_lock s) = pch_type s"
  "trace (spin_unlock s) = trace s @ [Spin_unlock]"
  "hpet_regs (spin_unlock s) = hpet_regs s"
  "smbus_regs (spin_unlock s) = smbus_regs s"
  "hpet_irq_flags (spin_unlock s) = hpet_irq_flags s"
  "pch_type (spin_unlock s) = pch_type s"
  by (simp_all add: spin_lock_def spin_unlock_def record_event_def)


lemma hpet_running_upd_cfg [simp]:
  "hpet_running H (r(HPET_CFG H := v)) = (v AND HPET_CFG_ENABLE H \<noteq> 0)"
  by (simp add: hpet_running_def)

lemma hpet_running_upd_other [simp]:
  "a \<noteq> HPET_CFG H \<Longrightarrow> hpet_running H (r(a := v)) = hpet_running H r"
  by (simp add: hpet_running_def)

lemma hpet_read_stopped:
  assumes "\<not> hpet_running H (hpet_regs s)"
  shows "fst (hpet_read H a s) = hpet_regs s a"
    and "hpet_regs (snd (hpet_read H a s)) = hpet_regs s"
  using assms by (simp_all add: fst_hpet_read hpet_read_regs time_passes_stopped)

lemma hpet_write_stopped:
  assumes "\<not> hpet_running H (hpet_regs s)"
  shows "hpet_regs (hpet_write H a v s) = (hpet_regs s)(a := v)"
  using assms by (simp add: hpet_write_regs time_passes_stopped)

lemma udelay_stopped:
  assumes "\<not> hpet_running H (hpet_regs s)"
  shows "hpet_regs (udelay H n s) = hpet_regs s"
  using assms by (simp add: udelay_regs time_passes_stopped)

lemma hpet_stop_counter_trace:
  assumes "HPET_CFG H \<noteq> HPET_COUNTER H" "HPET_CFG H \<noteq> HPET_COUNTER H + 4"
  shows "trace (hpet_stop_counter H s) =
           trace s @ [Hpet_rd (HPET_CFG H) (hpet_regs s (HPET_CFG H)),
                      Hpet_wr (HPET_CFG H) (hpet_regs s (HPET_CFG H) AND NOT (HPET_CFG_ENABLE H))]"
  using assms
  by (simp add: hpet_stop_counter_def split_beta Let_def fst_hpet_read time_passes_other)

lemma hpet_stop_counter_regs:
  assumes "HPET_CFG H \<noteq> HPET_COUNTER H" "HPET_CFG H \<noteq> HPET_COUNTER H + 4"
  shows "hpet_regs (hpet_stop_counter H s) (HPET_CFG H) =
           hpet_regs s (HPET_CFG H) AND NOT (HPET_CFG_ENABLE H)"
    and "\<not> hpet_running H (hpet_regs (hpet_stop_counter H s))"
    and "a \<noteq> HPET_CFG H \<Longrightarrow> a \<noteq> HPET_COUNTER H \<Longrightarrow> a \<noteq> HPET_COUNTER H + 4 \<Longrightarrow>
         hpet_regs (hpet_stop_counter H s) a = hpet_regs s a"
  using assms
  by (simp_all add: hpet_stop_counter_def split_beta Let_def fst_hpet_read time_passes_other
      hpet_write_regs hpet_read_regs word_bw_assocs)

lemma hpet_stop_counter_fields [simp]:
  "smbus_regs (hpet_stop_counter H s) = smbus_regs s"
  "hpet_irq_flags (hpet_stop_counter H s) = hpet_irq_flags s"
  "pch_type (hpet_stop_counter H s) = pch_type s"
  by (simp_all add: hpet_stop_counter_def split_beta Let_def)

lemma hpet_reset_counter_stopped:
  assumes "\<not> hpet_running H (hpet_regs s)"
    and "HPET_CFG H \<noteq> HPET_COUNTER H" "HPET_CFG H \<noteq> HPET_COUNTER H + 4"
  shows "hpet_regs (hpet_reset_counter H s) =
           (hpet_regs s)(HPET_COUNTER H := 0, HPET_COUNTER H + 4 := 0)"
    and "\<not> hpet_running H (hpet_regs (hpet_reset_counter H s))"
proof -
  let ?s1 = "hpet_write H (HPET_COUNTER H) 0 s"
  have r1: "hpet_regs ?s1 = (hpet_regs s)(HPET_COUNTER H := 0)"
    using assms(1) by (rule hpet_write_stopped)
  have st1: "\<not> hpet_running H (hpet_regs ?s1)"
    using assms by (simp add: r1)
  have r2: "hpet_regs (hpet_write H (HPET_COUNTER H + 4) 0 ?s1) =
              (hpet_regs ?s1)(HPET_COUNTER H + 4 := 0)"
    using st1 by (rule hpet_write_stopped)
  show "hpet_regs (hpet_reset_counter H s) =
           (hpet_regs s)(HPET_COUNTER H := 0, HPET_COUNTER H + 4 := 0)"
    by (simp only: hpet_reset_counter_def Let_def r2 r1)
  then show "\<not> hpet_running H (hpet_regs (hpet_reset_counter H s))"
    using assms by simp
qed

lemma hpet_reset_counter_fields [simp]:
  "trace (hpet_reset_counter H s) =
     trace s @ [Hpet_wr (HPET_COUNTER H) 0, Hpet_wr (HPET_COUNTER H + 4) 0]"
  "smbus_regs (hpet_reset_counter H s) = smbus_regs s"
  "hpet_irq_flags (hpet_reset_counter H s) = hpet_irq_flags s"
  "pch_type (hpet_reset_counter H s) = pch_type s"
  by (simp_all add: hpet_reset_counter_def Let_def)

lemma hpet_start_counter_stopped:
  assumes "\<not> hpet_running H (hpet_regs s)"
  shows "hpet_regs (hpet_start_counter H s) =
           (hpet_regs s)(HPET_CFG H := hpet_regs s (HPET_CFG H) OR HPET_CFG_ENABLE H)"
    and "trace (hpet_start_counter H s) =
           trace s @ [Hpet_rd (HPET_CFG H) (hpet_regs s (HPET_CFG H)),
                      Hpet_wr (HPET_CFG H) (hpet_regs s (HPET_CFG H) OR HPET_CFG_ENABLE H)]"
proof -
  let ?s1 = "snd (hpet_read H (HPET_CFG H) s)"
  have v: "fst (hpet_read H (HPET_CFG H) s) = hpet_regs s (HPET_CFG H)"
    and r1: "hpet_regs ?s1 = hpet_regs s"
    using assms by (rule hpet_read_stopped)+
  have st1: "\<not> hpet_running H (hpet_regs ?s1)"
    using assms by (simp add: r1)
  show "hpet_regs (hpet_start_counter H s) =
           (hpet_regs s)(HPET_CFG H := hpet_regs s (HPET_CFG H) OR HPET_CFG_ENABLE H)"
    by (simp only: hpet_start_counter_def Let_def split_beta hpet_write_stopped [OF st1] r1 v)
  show "trace (hpet_start_counter H s) =
           trace s @ [Hpet_rd (HPET_CFG H) (hpet_regs s (HPET_CFG H)),
                      Hpet_wr (HPET_CFG H) (hpet_regs s (HPET_CFG H) OR HPET_CFG_ENABLE H)]"
    by (simp add: hpet_start_counter_def Let_def split_beta v)
qed

lemma hpet_start_counter_fields [simp]:
  "smbus_regs (hpet_start_counter H s) = smbus_regs s"
  "hpet_irq_flags (hpet_start_counter H s) = hpet_irq_flags s"
  "pch_type (hpet_start_counter H s) = pch_type s"
  by (simp_all add: hpet_start_counter_def split_beta Let_def)

lemma hpet_restart_counter_regs:
  assumes "HPET_CFG H \<noteq> HPET_COUNTER H" "HPET_CFG H \<noteq> HPET_COUNTER H + 4"
  shows "hpet_regs (hpet_restart_counter H s) (HPET_COUNTER H) = 0"
    and "hpet_regs (hpet_restart_counter H s) (HPET_COUNTER H + 4) = 0"
    and "hpet_regs (hpet_restart_counter H s) (HPET_CFG H) =
           (hpet_regs s (HPET_CFG H) AND NOT (HPET_CFG_ENABLE H)) OR HPET_CFG_ENABLE H"
    and "a \<noteq> HPET_CFG H \<Longrightarrow> a \<noteq> HPET_COUNTER H \<Longrightarrow> a \<noteq> HPET_COUNTER H + 4 \<Longrightarrow>
         hpet_regs (hpet_restart_counter H s) a = hpet_regs s a"
    and "trace (hpet_restart_counter H s) =
           trace s @ [Hpet_rd (HPET_CFG H) (hpet_regs s (HPET_CFG H)),
                      Hpet_wr (HPET_CFG H) (hpet_regs s (HPET_CFG H) AND NOT (HPET_CFG_ENABLE H)),
                      Hpet_wr (HPET_COUNTER H) 0,
                      Hpet_wr (HPET_COUNTER H + 4) 0,
                      Hpet_rd (HPET_CFG H) (hpet_regs s (HPET_CFG H) AND NOT (HPET_CFG_ENABLE H)),
                      Hpet_wr (HPET_CFG H)
                        ((hpet_regs s (HPET_CFG H) AND NOT (HPET_CFG_ENABLE H)) OR HPET_CFG_ENABLE H)]"
proof -
  let ?s1 = "hpet_stop_counter H s"
  let ?s2 = "hpet_reset_counter H ?s1"
  note stop = hpet_stop_counter_regs [OF assms, where s = s]
  note reset = hpet_reset_counter_stopped [OF stop(2) assms]
  note start = hpet_start_counter_stopped [OF reset(2)]
  have unf: "hpet_restart_counter H s = hpet_start_counter H ?s2"
    by (simp add: hpet_restart_counter_def Let_def)
  show "hpet_regs (hpet_restart_counter H s) (HPET_COUNTER H) = 0"
    using assms by (simp add: unf start(1) reset(1))
  show "hpet_regs (hpet_restart_counter H s) (HPET_COUNTER H + 4) = 0"
    using assms by (simp add: unf start(1) reset(1))
  show "hpet_regs (hpet_restart_counter H s) (HPET_CFG H) =
           (hpet_regs s (HPET_CFG H) AND NOT (HPET_CFG_ENABLE H)) OR HPET_CFG_ENABLE H"
    using assms by (simp add: unf start(1) reset(1) stop(1))
  show "hpet_regs (hpet_restart_counter H s) a = hpet_regs s a"
    if "a \<noteq> HPET_CFG H" "a \<noteq> HPET_COUNTER H" "a \<noteq> HPET_COUNTER H + 4"
    using that by (simp add: unf start(1) reset(1) stop(3))
  show "trace (hpet_restart_counter H s) =
           trace s @ [Hpet_rd (HPET_CFG H) (hpet_regs s (HPET_CFG H)),
                      Hpet_wr (HPET_CFG H) (hpet_regs s (HPET_CFG H) AND NOT (HPET_CFG_ENABLE H)),
                      Hpet_wr (HPET_COUNTER H) 0,
                      Hpet_wr (HPET_COUNTER H + 4) 0,
                      Hpet_rd (HPET_CFG H) (hpet_regs s (HPET_CFG H) AND NOT (HPET_CFG_ENABLE H)),
                      Hpet_wr (HPET_CFG H)
                        ((hpet_regs s (HPET_CFG H) AND NOT (HPET_CFG_ENABLE H)) OR HPET_CFG_ENABLE H)]"
    using assms
    by (simp add: unf start(2) reset(1) stop(1) hpet_stop_counter_trace)
qed

lemma registers_distinctD:
  assumes "registers_distinct H"
  shows "HPET_CFG H \<noteq> HPET_COUNTER H" "HPET_CFG H \<noteq> HPET_COUNTER H + 4"
    "HPET_T0_CFG H \<noteq> HPET_CFG H" "HPET_T0_CFG H \<noteq> HPET_COUNTER H"
    "HPET_T0_CFG H \<noteq> HPET_COUNTER H + 4" "HPET_T0_CMP H \<noteq> HPET_CFG H"
    "HPET_T0_CMP H \<noteq> HPET_COUNTER H" "HPET_T0_CMP H \<noteq> HPET_COUNTER H + 4"
    "HPET_T0_CMP H \<noteq> HPET_T0_CFG H"
  using assms by (auto simp: registers_distinct_def)

lemma registers_distinct_example: "registers_distinct example_hpet_h"
  by (simp add: registers_distinct_def example_hpet_h_def)

lemma or_and_absorb_word:
  fixes x a b c d e :: u32
  shows "(x OR (a OR b OR c OR d OR e)) AND a = a"
    and "(x OR (a OR b OR c OR d OR e)) AND b = b"
    and "(x OR (a OR b OR c OR d OR e)) AND c = c"
    and "(x OR (a OR b OR c OR d OR e)) AND d = d"
    and "(x OR (a OR b OR c OR d OR e)) AND e = e"
  by (auto simp add: bit_eq_iff bit_and_iff bit_or_iff)

lemma and_not_or_and_word:
  fixes x e :: u32
  shows "((x AND NOT e) OR e) AND e = e"
  by (auto simp add: bit_eq_iff bit_and_iff bit_or_iff bit_not_iff)

lemma main_counter_zero:
  "r (HPET_COUNTER H) = 0 \<Longrightarrow> r (HPET_COUNTER H + 4) = 0 \<Longrightarrow> main_counter H r = 0"
  by (simp add: main_counter_def)

subsection \<open>Shutdown\<close>

lemma shutdown_unfold:
  "hpet_set_state_shutdown H s =
     spin_unlock (hpet_write H (HPET_T0_CFG H)
       (fst (hpet_read H (HPET_T0_CFG H) (spin_lock s)) AND NOT (HPET_TN_ENABLE H))
       (snd (hpet_read H (HPET_T0_CFG H) (spin_lock s))))"
  by (simp add: hpet_set_state_shutdown_def Let_def split_beta)

lemma time_passes_spin_lock:
  "hpet_regs (time_passes H (spin_lock s)) = hpet_regs (time_passes H s)"
  by (simp add: time_passes_def spin_lock_def record_event_def split: list.splits)

lemma shutdown_read:
  assumes "HPET_T0_CFG H \<noteq> HPET_COUNTER H" "HPET_T0_CFG H \<noteq> HPET_COUNTER H + 4"
  shows "fst (hpet_read H (HPET_T0_CFG H) (spin_lock s)) = hpet_regs s (HPET_T0_CFG H)"
  using assms by (simp add: fst_hpet_read time_passes_spin_lock time_passes_other)

lemma shutdown_cfg:
  assumes "HPET_T0_CFG H \<noteq> HPET_COUNTER H" "HPET_T0_CFG H \<noteq> HPET_COUNTER H + 4"
  shows "hpet_regs (hpet_set_state_shutdown H s) (HPET_T0_CFG H) =
           hpet_regs s (HPET_T0_CFG H) AND NOT (HPET_TN_ENABLE H)"
  by (simp add: shutdown_unfold hpet_write_regs shutdown_read [OF assms])

lemma shutdown_trace:
  assumes "HPET_T0_CFG H \<noteq> HPET_COUNTER H" "HPET_T0_CFG H \<noteq> HPET_COUNTER H + 4"
  shows "trace (hpet_set_state_shutdown H s) =
     trace s @ [Spin_lock,
                Hpet_rd (HPET_T0_CFG H) (hpet_regs s (HPET_T0_CFG H)),
                Hpet_wr (HPET_T0_CFG H) (hpet_regs s (HPET_T0_CFG H) AND NOT (HPET_TN_ENABLE H)),
                Spin_unlock]"
  by (simp add: shutdown_unfold shutdown_read [OF assms])

lemma shutdown_other:
  assumes "a \<noteq> HPET_T0_CFG H" "a \<noteq> HPET_COUNTER H" "a \<noteq> HPET_COUNTER H + 4"
  shows "hpet_regs (hpet_set_state_shutdown H s) a = hpet_regs s a"
  using assms
  by (simp add: shutdown_unfold hpet_write_regs hpet_read_regs time_passes_other
      time_passes_spin_lock)

lemma shutdown_stopped:
  assumes "\<not> hpet_running H (hpet_regs s)"
  shows "hpet_regs (hpet_set_state_shutdown H s) =
           (hpet_regs s)(HPET_T0_CFG H := hpet_regs s (HPET_T0_CFG H) AND NOT (HPET_TN_ENABLE H))"
proof -
  have st0: "\<not> hpet_running H (hpet_regs (spin_lock s))"
    using assms by simp
  note rd = hpet_read_stopped [OF st0, of "HPET_T0_CFG H"]
  have st1: "\<not> hpet_running H (hpet_regs (snd (hpet_read H (HPET_T0_CFG H) (spin_lock s))))"
    using assms by (simp add: rd)
  show ?thesis
    by (simp add: shutdown_unfold hpet_write_stopped [OF st1] rd)
qed

text \<open>
  Claim C9. Shutting timer 0 down is idempotent on its configuration register, and the
  only thing the operation changes is the enable bit of that register. For a header
  whose registers are distinct and every machine state: the configuration register of
  timer 0 after two shutdowns is the one after a single shutdown, which is the old
  value with the enable bit cleared; the operation reads the register once and writes
  it once, under the lock; no register other than this one and the free-running
  counter differs from before, and the SMBus registers are untouched; with the counter
  stopped, the whole register file after two shutdowns is the one after a single
  shutdown.
\<close>

theorem hpet_set_state_shutdown_idempotent:
  assumes rd: "registers_distinct H"
  shows "hpet_regs (hpet_set_state_shutdown H (hpet_set_state_shutdown H s)) (HPET_T0_CFG H) =
           hpet_regs (hpet_set_state_shutdown H s) (HPET_T0_CFG H)
       \<and> hpet_regs (hpet_set_state_shutdown H s) (HPET_T0_CFG H) =
           hpet_regs s (HPET_T0_CFG H) AND NOT (HPET_TN_ENABLE H)
       \<and> trace (hpet_set_state_shutdown H s) =
           trace s @ [Spin_lock,
                      Hpet_rd (HPET_T0_CFG H) (hpet_regs s (HPET_T0_CFG H)),
                      Hpet_wr (HPET_T0_CFG H)
                        (hpet_regs s (HPET_T0_CFG H) AND NOT (HPET_TN_ENABLE H)),
                      Spin_unlock]
       \<and> (\<forall>a. a \<noteq> HPET_T0_CFG H \<and> a \<noteq> HPET_COUNTER H \<and> a \<noteq> HPET_COUNTER H + 4 \<longrightarrow>
              hpet_regs (hpet_set_state_shutdown H s) a = hpet_regs s a)
       \<and> smbus_regs (hpet_set_state_shutdown H s) = smbus_regs s
       \<and> (\<not> hpet_running H (hpet_regs s) \<longrightarrow>
            hpet_regs (hpet_set_state_shutdown H (hpet_set_state_shutdown H s)) =
              hpet_regs (hpet_set_state_shutdown H s))"
proof -
  let ?sd = "hpet_set_state_shutdown H"
  note assms = registers_distinctD(4,5) [OF rd]
  have once: "hpet_regs (?sd s) (HPET_T0_CFG H) =
                hpet_regs s (HPET_T0_CFG H) AND NOT (HPET_TN_ENABLE H)" for s
    by (rule shutdown_cfg [OF assms])
  have twice: "hpet_regs (?sd (?sd s)) (HPET_T0_CFG H) = hpet_regs (?sd s) (HPET_T0_CFG H)"
    by (simp add: once word_bw_assocs)
  have others: "\<forall>a. a \<noteq> HPET_T0_CFG H \<and> a \<noteq> HPET_COUNTER H \<and> a \<noteq> HPET_COUNTER H + 4 \<longrightarrow>
              hpet_regs (?sd s) a = hpet_regs s a"
    by (simp add: shutdown_other)
  have smbus: "smbus_regs (?sd s) = smbus_regs s"
    by (simp add: shutdown_unfold)
  have full: "hpet_regs (?sd (?sd s)) = hpet_regs (?sd s)" if st: "\<not> hpet_running H (hpet_regs s)"
  proof -
    have st': "\<not> hpet_running H (hpet_regs (?sd s))"
      using st registers_distinctD(3) [OF rd] by (simp add: shutdown_stopped [OF st])
    show ?thesis
      by (simp add: shutdown_stopped [OF st'] shutdown_stopped [OF st] word_bw_assocs)
  qed
  show ?thesis
    using once twice shutdown_trace [OF assms] others smbus full by blast
qed

subsection \<open>Periodic mode\<close>

lemma hpet_write_stays_stopped:
  assumes "\<not> hpet_running H (hpet_regs s)" and "a \<noteq> HPET_CFG H"
  shows "\<not> hpet_running H (hpet_regs (hpet_write H a v s))"
  using assms by (simp add: hpet_write_stopped)

lemma periodic_state:
  fixes H :: hpet_h and s :: machine
  assumes rd: "registers_distinct H"
  defines "c0 \<equiv> hpet_regs s (HPET_CFG H) AND NOT (HPET_CFG_ENABLE H)"
    and "cfg \<equiv> hpet_regs s (HPET_T0_CFG H) AND NOT (HPET_TN_LEVEL H) OR
                 (HPET_TN_ENABLE H OR HPET_TN_PERIODIC H OR HPET_TN_SETVAL H OR
                  HPET_TN_32BIT H OR hpet_irq_flags s)"
  shows "hpet_regs (hpet_set_state_periodic H s) =
           (hpet_regs (hpet_stop_counter H (spin_lock s)))
             (HPET_COUNTER H := 0, HPET_COUNTER H + 4 := 0,
              HPET_T0_CFG H := cfg, HPET_T0_CMP H := HPET_COMPARE_VAL H,
              HPET_CFG H := c0 OR HPET_CFG_ENABLE H)"
    and "trace (hpet_set_state_periodic H s) =
           trace s @
           [Spin_lock,
            Hpet_rd (HPET_CFG H) (hpet_regs s (HPET_CFG H)),
            Hpet_wr (HPET_CFG H) c0,
            Hpet_wr (HPET_COUNTER H) 0,
            Hpet_wr (HPET_COUNTER H + 4) 0,
            Hpet_wr (HPET_T0_CMP H) 0,
            Hpet_rd (HPET_T0_CFG H) (hpet_regs s (HPET_T0_CFG H)),
            Hpet_wr (HPET_T0_CFG H) cfg,
            Hpet_wr (HPET_T0_CMP H) (HPET_COMPARE_VAL H),
            Udelay 1,
            Hpet_wr (HPET_T0_CMP H) (HPET_COMPARE_VAL H),
            Hpet_rd (HPET_CFG H) c0,
            Hpet_wr (HPET_CFG H) (c0 OR HPET_CFG_ENABLE H),
            Spin_unlock]"
proof -
  note d = registers_distinctD [OF rd]
  define s0 where "s0 = spin_lock s"
  define s1 where "s1 = hpet_stop_counter H s0"
  define s2 where "s2 = hpet_reset_counter H s1"
  define s3 where "s3 = hpet_write H (HPET_T0_CMP H) 0 s2"
  define s4 where "s4 = snd (hpet_read H (HPET_T0_CFG H) s3)"
  define s5 where "s5 = hpet_write H (HPET_T0_CFG H) cfg s4"
  define s6 where "s6 = hpet_write H (HPET_T0_CMP H) (HPET_COMPARE_VAL H) s5"
  define s7 where "s7 = udelay H 1 s6"
  define s8 where "s8 = hpet_write H (HPET_T0_CMP H) (HPET_COMPARE_VAL H) s7"
  define s9 where "s9 = hpet_start_counter H s8"
  have r0: "hpet_regs s0 = hpet_regs s" and t0: "trace s0 = trace s @ [Spin_lock]"
    and f0: "hpet_irq_flags s0 = hpet_irq_flags s"
    by (simp_all add: s0_def)
  note stop = hpet_stop_counter_regs [OF d(1,2), where s = s0, folded s1_def]
  have c1: "hpet_regs s1 (HPET_CFG H) = c0"
    by (simp add: stop(1) r0 c0_def)
  have t1: "trace s1 = trace s0 @ [Hpet_rd (HPET_CFG H) (hpet_regs s (HPET_CFG H)),
                                   Hpet_wr (HPET_CFG H) c0]"
    by (simp add: s1_def hpet_stop_counter_trace [OF d(1,2)] r0 c0_def)
  have o1: "hpet_regs s1 (HPET_T0_CFG H) = hpet_regs s (HPET_T0_CFG H)"
    using d by (simp add: stop(3) r0)
  note reset = hpet_reset_counter_stopped [OF stop(2) d(1,2), folded s2_def]
  have r3: "hpet_regs s3 = (hpet_regs s2)(HPET_T0_CMP H := 0)"
    unfolding s3_def by (rule hpet_write_stopped [OF reset(2)])
  have st3: "\<not> hpet_running H (hpet_regs s3)"
    unfolding s3_def by (rule hpet_write_stays_stopped [OF reset(2) d(6)])
  have v4: "fst (hpet_read H (HPET_T0_CFG H) s3) = hpet_regs s (HPET_T0_CFG H)"
    using d by (simp add: hpet_read_stopped(1) [OF st3] r3 reset(1) o1)
  have r4: "hpet_regs s4 = hpet_regs s3"
    unfolding s4_def by (rule hpet_read_stopped(2) [OF st3])
  have st4: "\<not> hpet_running H (hpet_regs s4)"
    using st3 by (simp add: r4)
  have f4: "hpet_irq_flags s4 = hpet_irq_flags s"
    by (simp add: s4_def s3_def s2_def s1_def f0)
  have r5: "hpet_regs s5 = (hpet_regs s4)(HPET_T0_CFG H := cfg)"
    unfolding s5_def by (rule hpet_write_stopped [OF st4])
  have st5: "\<not> hpet_running H (hpet_regs s5)"
    unfolding s5_def by (rule hpet_write_stays_stopped [OF st4 d(3)])
  have r6: "hpet_regs s6 = (hpet_regs s5)(HPET_T0_CMP H := HPET_COMPARE_VAL H)"
    unfolding s6_def by (rule hpet_write_stopped [OF st5])
  have st6: "\<not> hpet_running H (hpet_regs s6)"
    unfolding s6_def by (rule hpet_write_stays_stopped [OF st5 d(6)])
  have r7: "hpet_regs s7 = hpet_regs s6"
    unfolding s7_def by (rule udelay_stopped [OF st6])
  have st7: "\<not> hpet_running H (hpet_regs s7)"
    using st6 by (simp add: r7)
  have r8: "hpet_regs s8 = (hpet_regs s7)(HPET_T0_CMP H := HPET_COMPARE_VAL H)"
    unfolding s8_def by (rule hpet_write_stopped [OF st7])
  have st8: "\<not> hpet_running H (hpet_regs s8)"
    unfolding s8_def by (rule hpet_write_stays_stopped [OF st7 d(6)])
  note start = hpet_start_counter_stopped [OF st8, folded s9_def]
  have c8: "hpet_regs s8 (HPET_CFG H) = c0"
    using d by (simp add: r8 r7 r6 r5 r4 r3 reset(1) c1)
  have unf: "hpet_set_state_periodic H s = spin_unlock s9"
    by (simp add: hpet_set_state_periodic_def Let_def split_beta
        v4 [unfolded s3_def s2_def s1_def s0_def]
        s9_def s8_def s7_def s6_def s5_def s4_def s3_def s2_def s1_def s0_def
        cfg_def)
  show "hpet_regs (hpet_set_state_periodic H s) =
           (hpet_regs (hpet_stop_counter H (spin_lock s)))
             (HPET_COUNTER H := 0, HPET_COUNTER H + 4 := 0,
              HPET_T0_CFG H := cfg, HPET_T0_CMP H := HPET_COMPARE_VAL H,
              HPET_CFG H := c0 OR HPET_CFG_ENABLE H)"
    using d
    by (auto simp add: unf start(1) [unfolded c8] r8 r7 r6 r5 r4 r3 reset(1) s1_def s0_def
        fun_eq_iff)
  show "trace (hpet_set_state_periodic H s) =
           trace s @
           [Spin_lock,
            Hpet_rd (HPET_CFG H) (hpet_regs s (HPET_CFG H)),
            Hpet_wr (HPET_CFG H) c0,
            Hpet_wr (HPET_COUNTER H) 0,
            Hpet_wr (HPET_COUNTER H + 4) 0,
            Hpet_wr (HPET_T0_CMP H) 0,
            Hpet_rd (HPET_T0_CFG H) (hpet_regs s (HPET_T0_CFG H)),
            Hpet_wr (HPET_T0_CFG H) cfg,
            Hpet_wr (HPET_T0_CMP H) (HPET_COMPARE_VAL H),
            Udelay 1,
            Hpet_wr (HPET_T0_CMP H) (HPET_COMPARE_VAL H),
            Hpet_rd (HPET_CFG H) c0,
            Hpet_wr (HPET_CFG H) (c0 OR HPET_CFG_ENABLE H),
            Spin_unlock]"
  proof -
    have t3: "trace s3 = trace s1 @ [Hpet_wr (HPET_COUNTER H) 0, Hpet_wr (HPET_COUNTER H + 4) 0,
                                     Hpet_wr (HPET_T0_CMP H) 0]"
      by (simp add: s3_def s2_def)
    have t4: "trace s4 = trace s3 @ [Hpet_rd (HPET_T0_CFG H) (hpet_regs s (HPET_T0_CFG H))]"
      by (simp add: s4_def v4)
    have t8: "trace s8 = trace s4 @ [Hpet_wr (HPET_T0_CFG H) cfg,
                                     Hpet_wr (HPET_T0_CMP H) (HPET_COMPARE_VAL H), Udelay 1,
                                     Hpet_wr (HPET_T0_CMP H) (HPET_COMPARE_VAL H)]"
      by (simp add: s8_def s7_def s6_def s5_def)
    show ?thesis
      by (simp add: unf start(2) [unfolded c8] t8 t4 t3 t1 t0)
  qed
qed

text \<open>
  Claim C2. Entering periodic mode, from every register state (and every header whose
  registers are distinct): the configuration register of timer 0 is left holding the old
  value with the level bit cleared, ORed with the enable, periodic, set-value and
  32-bit bits and with the board's IRQ-trigger flags \<open>hpet_irq_flags\<close>, so that
  each of those bits is set in it; after that write the comparator is written twice
  with the compare value, with the delay of one microsecond between the two writes (the
  only earlier write to the comparator clears it, before the mode bits are written);
  and at the end the enable bit of the general configuration register is set and
  both halves of the main counter are zero. The trace lists every access in order.
\<close>

theorem hpet_set_state_periodic_programs_timer:
  assumes "registers_distinct H"
  shows "let old = hpet_regs s (HPET_T0_CFG H);
             cfg = old AND NOT (HPET_TN_LEVEL H) OR
                   (HPET_TN_ENABLE H OR HPET_TN_PERIODIC H OR HPET_TN_SETVAL H OR
                    HPET_TN_32BIT H OR hpet_irq_flags s);
             c0 = hpet_regs s (HPET_CFG H) AND NOT (HPET_CFG_ENABLE H);
             s' = hpet_set_state_periodic H s
         in hpet_regs s' (HPET_T0_CFG H) = cfg
          \<and> cfg AND HPET_TN_ENABLE H = HPET_TN_ENABLE H
          \<and> cfg AND HPET_TN_PERIODIC H = HPET_TN_PERIODIC H
          \<and> cfg AND HPET_TN_SETVAL H = HPET_TN_SETVAL H
          \<and> cfg AND HPET_TN_32BIT H = HPET_TN_32BIT H
          \<and> cfg AND hpet_irq_flags s = hpet_irq_flags s
          \<and> trace s' =
              trace s @
              [Spin_lock,
               Hpet_rd (HPET_CFG H) (hpet_regs s (HPET_CFG H)),
               Hpet_wr (HPET_CFG H) c0,
               Hpet_wr (HPET_COUNTER H) 0,
               Hpet_wr (HPET_COUNTER H + 4) 0,
               Hpet_wr (HPET_T0_CMP H) 0,
               Hpet_rd (HPET_T0_CFG H) old,
               Hpet_wr (HPET_T0_CFG H) cfg,
               Hpet_wr (HPET_T0_CMP H) (HPET_COMPARE_VAL H),
               Udelay 1,
               Hpet_wr (HPET_T0_CMP H) (HPET_COMPARE_VAL H),
               Hpet_rd (HPET_CFG H) c0,
               Hpet_wr (HPET_CFG H) (c0 OR HPET_CFG_ENABLE H),
               Spin_unlock]
          \<and> hpet_regs s' (HPET_T0_CMP H) = HPET_COMPARE_VAL H
          \<and> hpet_regs s' (HPET_CFG H) AND HPET_CFG_ENABLE H = HPET_CFG_ENABLE H
          \<and> hpet_regs s' (HPET_COUNTER H) = 0
          \<and> hpet_regs s' (HPET_COUNTER H + 4) = 0
          \<and> main_counter H (hpet_regs s') = 0"
proof -
  note d = registers_distinctD [OF assms]
  note st = periodic_state [OF assms, of s]
  have lo: "hpet_regs (hpet_set_state_periodic H s) (HPET_COUNTER H) = 0"
    and hi: "hpet_regs (hpet_set_state_periodic H s) (HPET_COUNTER H + 4) = 0"
    using d by (simp_all add: st(1))
  have cfg: "hpet_regs (hpet_set_state_periodic H s) (HPET_T0_CFG H) =
               hpet_regs s (HPET_T0_CFG H) AND NOT (HPET_TN_LEVEL H) OR
                 (HPET_TN_ENABLE H OR HPET_TN_PERIODIC H OR HPET_TN_SETVAL H OR
                  HPET_TN_32BIT H OR hpet_irq_flags s)"
    using d by (simp add: st(1))
  have cmp: "hpet_regs (hpet_set_state_periodic H s) (HPET_T0_CMP H) = HPET_COMPARE_VAL H"
    using d by (simp add: st(1))
  have en: "hpet_regs (hpet_set_state_periodic H s) (HPET_CFG H) AND HPET_CFG_ENABLE H =
              HPET_CFG_ENABLE H"
    by (simp add: st(1) and_not_or_and_word)
  show ?thesis
    unfolding Let_def
    using cfg cmp en lo hi st(2) main_counter_zero [OF lo hi]
    by (simp add: or_and_absorb_word)
qed

subsection \<open>Next event\<close>

lemma hpet_next_event_unfold:
  fixes H delta s
  defines "cnt \<equiv> fst (hpet_read H (HPET_COUNTER H) s) + ucast delta"
  defines "s2 \<equiv> hpet_write H (HPET_T0_CMP H) cnt (snd (hpet_read H (HPET_COUNTER H) s))"
  shows "hpet_next_event H delta s =
           (if sint (cnt - fst (hpet_read H (HPET_COUNTER H) s2)) < 16 then Inl ETIME else Inr (),
            snd (hpet_read H (HPET_COUNTER H) s2))"
  by (simp add: hpet_next_event_def Let_def split_beta cnt_def s2_def HPET_MIN_CYCLES_def)

lemma hpet_next_event_trace:
  "trace (snd (hpet_next_event H delta s)) =
     trace s @
     [Hpet_rd (HPET_COUNTER H) (fst (hpet_read H (HPET_COUNTER H) s)),
      Hpet_wr (HPET_T0_CMP H) (fst (hpet_read H (HPET_COUNTER H) s) + ucast delta),
      Hpet_rd (HPET_COUNTER H) (hpet_regs (snd (hpet_next_event H delta s)) (HPET_COUNTER H))]"
  by (simp add: hpet_next_event_unfold hpet_read_regs fst_hpet_read)

lemma hpet_next_event_result:
  "fst (hpet_next_event H delta s) =
     (if sint (fst (hpet_read H (HPET_COUNTER H) s) + ucast delta -
               hpet_regs (snd (hpet_next_event H delta s)) (HPET_COUNTER H)) < 16
      then Inl ETIME else Inr ())"
  by (simp add: hpet_next_event_unfold hpet_read_regs fst_hpet_read)

lemma hpet_next_event_cmp:
  assumes "HPET_T0_CMP H \<noteq> HPET_COUNTER H" "HPET_T0_CMP H \<noteq> HPET_COUNTER H + 4"
  shows "hpet_regs (snd (hpet_next_event H delta s)) (HPET_T0_CMP H) =
           fst (hpet_read H (HPET_COUNTER H) s) + ucast delta"
  using assms
  by (simp add: hpet_next_event_unfold hpet_read_regs time_passes_other hpet_write_regs)

text \<open>
  Claim C1. For every machine state (so every counter value, and every amount by which
  the counter moves on) and every delta, programming the next event reads the counter
  (\<open>cnt\<close>), writes \<open>cnt + delta\<close> to the comparator of timer 0 and reads the counter
  again (\<open>now\<close>), in this order and with no other access; it returns \<^verbatim>\<open>-ETIME\<close>
  exactly when the difference between the value written and the counter read back,
  taken as a signed 32-bit number, is less than 16, and 0 otherwise; and the
  comparator (a register of its own) holds the value written.
\<close>

theorem hpet_next_event_too_late:
  "let cnt = fst (hpet_read H (HPET_COUNTER H) s);
       cmp = cnt + ucast delta;
       s' = snd (hpet_next_event H delta s);
       now = hpet_regs s' (HPET_COUNTER H)
   in trace s' = trace s @ [Hpet_rd (HPET_COUNTER H) cnt,
                            Hpet_wr (HPET_T0_CMP H) cmp,
                            Hpet_rd (HPET_COUNTER H) now]
    \<and> (fst (hpet_next_event H delta s) = Inl ETIME \<longleftrightarrow> sint (cmp - now) < 16)
    \<and> (fst (hpet_next_event H delta s) = Inr () \<longleftrightarrow> \<not> sint (cmp - now) < 16)
    \<and> (HPET_T0_CMP H \<noteq> HPET_COUNTER H \<and> HPET_T0_CMP H \<noteq> HPET_COUNTER H + 4 \<longrightarrow>
         hpet_regs s' (HPET_T0_CMP H) = cmp)"
  unfolding Let_def
  using hpet_next_event_trace [of H delta s] hpet_next_event_result [of H delta s]
    hpet_next_event_cmp [of H delta s]
  by simp

lemma unat_add_ucast_64_32:
  fixes c :: u32 and delta :: u64
  shows "unat (c + ucast delta) = (unat c + unat delta) mod 2 ^ 32"
proof -
  have "unat (ucast delta :: u32) = unat delta mod 2 ^ 32"
    by (simp add: unsigned_ucast_eq take_bit_eq_mod)
  then have "unat (c + ucast delta) = (unat c + unat delta mod 2 ^ 32) mod 2 ^ 32"
    by (simp add: unat_word_ariths)
  then show ?thesis
    by (simp add: mod_add_right_eq)
qed

text \<open>
  Claim C10. The delta is a 64-bit unsigned number; it is cut to its low 32 bits before
  it is added to the counter, and the addition is modulo \<open>2 ^ 32\<close>: the value \<open>v\<close>
  written to the comparator is the counter read plus the delta, modulo \<open>2 ^ 32\<close>.
\<close>

theorem hpet_next_event_delta_truncated:
  "\<exists>cnt v now.
     trace (snd (hpet_next_event H delta s)) =
       trace s @ [Hpet_rd (HPET_COUNTER H) cnt, Hpet_wr (HPET_T0_CMP H) v,
                  Hpet_rd (HPET_COUNTER H) now]
   \<and> v = cnt + ucast delta
   \<and> unat v = (unat cnt + unat delta mod 2 ^ 32) mod 2 ^ 32
   \<and> unat v = (unat cnt + unat delta) mod 2 ^ 32"
  using hpet_next_event_trace [of H delta s]
  by (metis unat_add_ucast_64_32 mod_add_right_eq)

subsection \<open>Interrupt handler\<close>

text \<open>
  Claim C3. For every value read from the status register: when the status bit of
  timer 0 is clear, the handler returns \<^verbatim>\<open>IRQ_NONE\<close> having done nothing but that read
  (no write, no call of the event handler); when it is set, the handler returns
  \<^verbatim>\<open>IRQ_HANDLED\<close>, and the event handler of the processor is called on a machine whose
  trace is the read, then one write of the status bit of timer 0 to the status
  register, then the call.
\<close>

theorem hpet_irq_handler_acknowledges:
  "let status = fst (hpet_read H (HPET_STATUS H) s);
       r = hpet_irq_handler H event_handler cpu s
   in (status AND HPET_T0_IRS H = 0 \<longrightarrow>
         fst r = IRQ_NONE \<and>
         trace (snd r) = trace s @ [Hpet_rd (HPET_STATUS H) status] \<and>
         snd r = snd (hpet_read H (HPET_STATUS H) s))
    \<and> (status AND HPET_T0_IRS H \<noteq> 0 \<longrightarrow>
         (\<exists>s2. r = (IRQ_HANDLED, event_handler cpu s2) \<and>
               trace s2 = trace s @ [Hpet_rd (HPET_STATUS H) status,
                                     Hpet_wr (HPET_STATUS H) (HPET_T0_IRS H),
                                     Event_handler cpu]))"
proof -
  let ?s1 = "snd (hpet_read H (HPET_STATUS H) s)"
  let ?s2 = "record_event (Event_handler cpu) (hpet_write H (HPET_STATUS H) (HPET_T0_IRS H) ?s1)"
  have not_mine: "hpet_irq_handler H event_handler cpu s = (IRQ_NONE, ?s1)"
    if "fst (hpet_read H (HPET_STATUS H) s) AND HPET_T0_IRS H = 0"
    using that by (simp add: hpet_irq_handler_def Let_def split_beta)
  have mine: "hpet_irq_handler H event_handler cpu s = (IRQ_HANDLED, event_handler cpu ?s2)"
    if "fst (hpet_read H (HPET_STATUS H) s) AND HPET_T0_IRS H \<noteq> 0"
    using that by (simp add: hpet_irq_handler_def Let_def split_beta)
  have t2: "trace ?s2 = trace s @ [Hpet_rd (HPET_STATUS H) (fst (hpet_read H (HPET_STATUS H) s)),
                                   Hpet_wr (HPET_STATUS H) (HPET_T0_IRS H),
                                   Event_handler cpu]"
    by (simp add: record_event_def)
  show ?thesis
    unfolding Let_def using not_mine mine t2 by auto
qed

subsection \<open>Setup and resume\<close>

lemma smbus_write_fields [simp]:
  "trace (smbus_write H a v s) = trace s @ [Smbus_wr a v]"
  "smbus_regs (smbus_write H a v s) = (smbus_regs s)(a := v)"
  "hpet_irq_flags (smbus_write H a v s) = hpet_irq_flags s"
  "pch_type (smbus_write H a v s) = pch_type s"
  by (simp_all add: smbus_write_def record_event_def Let_def)

lemma smbus_write_hpet_regs:
  "a \<noteq> HPET_COUNTER H \<Longrightarrow> a \<noteq> HPET_COUNTER H + 4 \<Longrightarrow>
   hpet_regs (smbus_write H b v s) a = hpet_regs s a"
  by (simp add: smbus_write_def record_event_def Let_def time_passes_other)

lemma smbus_read_fields [simp]:
  "fst (smbus_read H a s) = smbus_regs s a"
  "trace (snd (smbus_read H a s)) = trace s @ [Smbus_rd a (smbus_regs s a)]"
  "smbus_regs (snd (smbus_read H a s)) = smbus_regs s"
  "hpet_irq_flags (snd (smbus_read H a s)) = hpet_irq_flags s"
  "pch_type (snd (smbus_read H a s)) = pch_type s"
  by (simp_all add: smbus_read_def record_event_def Let_def)

lemma smbus_read_hpet_regs:
  "a \<noteq> HPET_COUNTER H \<Longrightarrow> a \<noteq> HPET_COUNTER H + 4 \<Longrightarrow>
   hpet_regs (snd (smbus_read H b s)) a = hpet_regs s a"
  by (simp add: smbus_read_def record_event_def Let_def time_passes_other)

lemma smbus_enable_fields [simp]:
  "trace (smbus_enable H a b s) =
     trace s @ [Smbus_rd a (smbus_regs s a), Smbus_wr a (smbus_regs s a OR b)]"
  "smbus_regs (smbus_enable H a b s) = (smbus_regs s)(a := smbus_regs s a OR b)"
  "hpet_irq_flags (smbus_enable H a b s) = hpet_irq_flags s"
  "pch_type (smbus_enable H a b s) = pch_type s"
  by (simp_all add: smbus_enable_def split_beta Let_def)

lemma smbus_enable_hpet_regs:
  "a \<noteq> HPET_COUNTER H \<Longrightarrow> a \<noteq> HPET_COUNTER H + 4 \<Longrightarrow>
   hpet_regs (smbus_enable H b v s) a = hpet_regs s a"
  by (simp add: smbus_enable_def split_beta Let_def smbus_write_hpet_regs smbus_read_hpet_regs)

lemma hpet_setup_trace:
  "trace (hpet_setup H s) =
     trace s @
     (if pch_type s = RS780E
      then [Smbus_wr 0xb4 (HPET_ADDR H),
            Smbus_rd 0x40 (smbus_regs s 0x40),
            Smbus_wr 0x40 (smbus_regs s 0x40 OR push_bit 28 1),
            Smbus_rd 0x64 (smbus_regs s 0x64),
            Smbus_wr 0x64 (smbus_regs s 0x64 OR push_bit 10 1)]
      else [])"
  by (simp add: hpet_setup_def Let_def hpet_enable_legacy_int_def
      SMBUS_PCI_REGB4_def SMBUS_PCI_REG40_def SMBUS_PCI_REG64_def)

lemma hpet_setup_hpet_regs:
  "a \<noteq> HPET_COUNTER H \<Longrightarrow> a \<noteq> HPET_COUNTER H + 4 \<Longrightarrow>
   hpet_regs (hpet_setup H s) a = hpet_regs s a"
  by (simp add: hpet_setup_def Let_def hpet_enable_legacy_int_def
      smbus_write_hpet_regs smbus_enable_hpet_regs)

lemma hpet_restart_counter_smbus [simp]:
  "smbus_regs (hpet_restart_counter H s) = smbus_regs s"
  by (simp add: hpet_restart_counter_def Let_def)

text \<open>
  Claim C6. Suspending the clocksource leaves the machine as it is. Resuming it, from
  every machine state (so every counter value): first runs \<^verbatim>\<open>hpet_setup\<close>, the bridge
  fixups of the one-time setup (on an RS780E the three SMBus registers are programmed,
  on the other two hubs nothing is accessed); then clears the enable bit of the general
  configuration register, writes zero to both halves of the main counter and sets the
  enable bit again. At the end the counter is zero and enabled.
\<close>

theorem hpet_resume_restarts_counter:
  assumes "HPET_CFG H \<noteq> HPET_COUNTER H" and "HPET_CFG H \<noteq> HPET_COUNTER H + 4"
  shows "hpet_suspend s = s
       \<and> (let s1 = hpet_setup H s;
               c0 = hpet_regs s (HPET_CFG H) AND NOT (HPET_CFG_ENABLE H);
               s' = hpet_resume H s
           in trace s1 =
                trace s @
                (if pch_type s = RS780E
                 then [Smbus_wr 0xb4 (HPET_ADDR H),
                       Smbus_rd 0x40 (smbus_regs s 0x40),
                       Smbus_wr 0x40 (smbus_regs s 0x40 OR push_bit 28 1),
                       Smbus_rd 0x64 (smbus_regs s 0x64),
                       Smbus_wr 0x64 (smbus_regs s 0x64 OR push_bit 10 1)]
                 else [])
            \<and> trace s' =
                trace s1 @
                [Hpet_rd (HPET_CFG H) (hpet_regs s (HPET_CFG H)),
                 Hpet_wr (HPET_CFG H) c0,
                 Hpet_wr (HPET_COUNTER H) 0,
                 Hpet_wr (HPET_COUNTER H + 4) 0,
                 Hpet_rd (HPET_CFG H) c0,
                 Hpet_wr (HPET_CFG H) (c0 OR HPET_CFG_ENABLE H)]
            \<and> smbus_regs s' = smbus_regs s1
            \<and> hpet_regs s' (HPET_COUNTER H) = 0
            \<and> hpet_regs s' (HPET_COUNTER H + 4) = 0
            \<and> main_counter H (hpet_regs s') = 0
            \<and> hpet_regs s' (HPET_CFG H) = c0 OR HPET_CFG_ENABLE H
            \<and> hpet_regs s' (HPET_CFG H) AND HPET_CFG_ENABLE H = HPET_CFG_ENABLE H)"
proof -
  let ?s1 = "hpet_setup H s"
  have unf: "hpet_resume H s = hpet_restart_counter H ?s1"
    by (simp add: hpet_resume_def Let_def)
  have c1: "hpet_regs ?s1 (HPET_CFG H) = hpet_regs s (HPET_CFG H)"
    using assms by (simp add: hpet_setup_hpet_regs)
  note rs = hpet_restart_counter_regs [OF assms, where s = "?s1", unfolded c1, folded unf]
  show ?thesis
    unfolding Let_def
    using rs(1,2,3,5) main_counter_zero [OF rs(1,2)] hpet_setup_trace [of H s]
    by (simp add: hpet_suspend_def unf and_not_or_and_word)
qed

subsection \<open>The driver on an example machine\<close>

text \<open>
  Each theorem above is applied here to the example header and an example machine.
\<close>

lemma example_hpet_h_simps:
  "HPET_CFG example_hpet_h = 0x10" "HPET_STATUS example_hpet_h = 0x20"
  "HPET_COUNTER example_hpet_h = 0xf0" "HPET_T0_CFG example_hpet_h = 0x100"
  "HPET_T0_CMP example_hpet_h = 0x108" "HPET_CFG_ENABLE example_hpet_h = 1"
  "HPET_T0_IRS example_hpet_h = 1" "HPET_TN_ENABLE example_hpet_h = 4"
  "HPET_TN_LEVEL example_hpet_h = 2" "HPET_TN_PERIODIC example_hpet_h = 8"
  "HPET_TN_SETVAL example_hpet_h = 0x40" "HPET_TN_32BIT example_hpet_h = 0x100"
  "HPET_COMPARE_VAL example_hpet_h = 57275" "HPET_ADDR example_hpet_h = 0x20000"
  by (simp_all add: example_hpet_h_def)

theorem hpet_set_state_shutdown_idempotent_witness:
  "registers_distinct example_hpet_h
   \<and> \<not> hpet_running example_hpet_h (hpet_regs (example_machine 0 0 0x10f))
   \<and> hpet_regs (hpet_set_state_shutdown example_hpet_h
        (hpet_set_state_shutdown example_hpet_h (example_machine 0 0 0x10f))) =
      hpet_regs (hpet_set_state_shutdown example_hpet_h (example_machine 0 0 0x10f))
   \<and> hpet_regs (hpet_set_state_shutdown example_hpet_h (example_machine 0 0 0x10f)) 0x100 = 0x10b
   \<and> hpet_regs (hpet_set_state_shutdown example_hpet_h (example_machine 0 0 0x10f)) 0x10 = 0"
proof -
  let ?H = example_hpet_h and ?s = "example_machine 0 0 0x10f"
  have st: "\<not> hpet_running ?H (hpet_regs ?s)"
    by (simp add: hpet_running_def example_machine_def example_hpet_h_simps)
  have old: "hpet_regs ?s 0x100 = 0x10f" "hpet_regs ?s 0x10 = 0"
    by (simp_all add: example_machine_def)
  have a: "(0x10 :: int) \<noteq> HPET_T0_CFG ?H \<and> 0x10 \<noteq> HPET_COUNTER ?H \<and> 0x10 \<noteq> HPET_COUNTER ?H + 4"
    by (simp add: example_hpet_h_simps)
  show ?thesis
    using hpet_set_state_shutdown_idempotent [OF registers_distinct_example, of ?s]
      registers_distinct_example st a
    by (simp add: old example_hpet_h_simps)
qed

theorem hpet_set_state_periodic_programs_timer_witness:
  "registers_distinct example_hpet_h
   \<and> hpet_regs (hpet_set_state_periodic example_hpet_h (example_machine 1 0 2)) 0x100 = 0x14c
   \<and> hpet_regs (hpet_set_state_periodic example_hpet_h (example_machine 1 0 2)) 0x108 = 57275
   \<and> hpet_regs (hpet_set_state_periodic example_hpet_h (example_machine 1 0 2)) 0xf0 = 0
   \<and> hpet_regs (hpet_set_state_periodic example_hpet_h (example_machine 1 0 2)) 0x10 AND 1 = 1"
proof -
  let ?H = example_hpet_h and ?s = "example_machine 1 0 2"
  have old: "hpet_regs ?s 0x100 = 2" "hpet_irq_flags ?s = 0"
    by (simp_all add: example_machine_def)
  show ?thesis
    using hpet_set_state_periodic_programs_timer [OF registers_distinct_example, of ?s]
      registers_distinct_example
    by (simp add: Let_def old example_hpet_h_simps)
qed

theorem hpet_resume_restarts_counter_witness:
  "HPET_CFG example_hpet_h \<noteq> HPET_COUNTER example_hpet_h
   \<and> HPET_CFG example_hpet_h \<noteq> HPET_COUNTER example_hpet_h + 4
   \<and> hpet_regs (example_machine 1 0 0) 0xf0 = 1000
   \<and> hpet_regs (hpet_resume example_hpet_h (example_machine 1 0 0)) 0xf0 = 0
   \<and> hpet_regs (hpet_resume example_hpet_h (example_machine 1 0 0)) 0xf4 = 0
   \<and> hpet_regs (hpet_resume example_hpet_h (example_machine 1 0 0)) 0x10 = 1
   \<and> trace (hpet_setup example_hpet_h (example_machine 1 0 0)) =
        [Smbus_wr 0xb4 0x20000, Smbus_rd 0x40 0, Smbus_wr 0x40 0x10000000,
         Smbus_rd 0x64 0, Smbus_wr 0x64 0x400]"
proof -
  let ?H = example_hpet_h and ?s = "example_machine 1 0 0"
  have d: "HPET_CFG ?H \<noteq> HPET_COUNTER ?H" "HPET_CFG ?H \<noteq> HPET_COUNTER ?H + 4"
    by (simp_all add: example_hpet_h_simps)
  have old: "hpet_regs ?s 0x10 = 1" "hpet_regs ?s 0xf0 = 1000" "pch_type ?s = RS780E"
    "smbus_regs ?s = (\<lambda>_. 0)" "trace ?s = []"
    by (simp_all add: example_machine_def)
  show ?thesis
    using hpet_resume_restarts_counter [OF d, of ?s] d
    by (simp add: Let_def old example_hpet_h_simps)
qed

theorem hpet_irq_handler_acknowledges_witness:
  "fst (hpet_irq_handler example_hpet_h (\<lambda>cpu s. s) 0 (example_machine 0 2 0)) = IRQ_NONE
   \<and> trace (snd (hpet_irq_handler example_hpet_h (\<lambda>cpu s. s) 0 (example_machine 0 2 0))) =
        [Hpet_rd 0x20 2]
   \<and> fst (hpet_irq_handler example_hpet_h (\<lambda>cpu s. s) 0 (example_machine 0 3 0)) = IRQ_HANDLED
   \<and> trace (snd (hpet_irq_handler example_hpet_h (\<lambda>cpu s. s) 0 (example_machine 0 3 0))) =
        [Hpet_rd 0x20 3, Hpet_wr 0x20 1, Event_handler 0]"
proof -
  let ?H = example_hpet_h
  have clear: "fst (hpet_read ?H 0x20 (example_machine 0 2 0)) = 2"
    and set: "fst (hpet_read ?H 0x20 (example_machine 0 3 0)) = 3"
    by (simp_all add: hpet_read_def Let_def time_passes_def count_up_def hpet_running_def
        example_machine_def example_hpet_h_simps)
  have t: "trace (example_machine 0 2 0) = []" "trace (example_machine 0 3 0) = []"
    by (simp_all add: example_machine_def)
  have bits: "(2 :: u32) AND 1 = 0" "(3 :: u32) AND 1 \<noteq> 0"
    by simp_all
  from hpet_irq_handler_acknowledges [of ?H "example_machine 0 2 0" "\<lambda>cpu s. s" 0]
  have none: "fst (hpet_irq_handler ?H (\<lambda>cpu s. s) 0 (example_machine 0 2 0)) = IRQ_NONE \<and>
              trace (snd (hpet_irq_handler ?H (\<lambda>cpu s. s) 0 (example_machine 0 2 0))) =
                [Hpet_rd 0x20 2]"
    by (simp add: Let_def example_hpet_h_simps clear t bits)
  from hpet_irq_handler_acknowledges [of ?H "example_machine 0 3 0" "\<lambda>cpu s. s" 0]
  obtain s2 where "hpet_irq_handler ?H (\<lambda>cpu s. s) 0 (example_machine 0 3 0) = (IRQ_HANDLED, s2)"
    and "trace s2 = [Hpet_rd 0x20 3, Hpet_wr 0x20 1, Event_handler 0]"
    by (auto simp add: Let_def example_hpet_h_simps set t bits)
  with none show ?thesis
    by simp
qed

theorem hpet_next_event_delta_truncated_witness:
  "trace (snd (hpet_next_event example_hpet_h 0x100000064 (example_machine 1 0 0))) =
     [Hpet_rd 0xf0 1005, Hpet_wr 0x108 1105, Hpet_rd 0xf0 1021]
   \<and> (1105 :: nat) = (1005 + 0x100000064) mod 2 ^ 32"
proof -
  let ?H = example_hpet_h and ?s = "example_machine 1 0 0"
  have t: "trace (snd (hpet_next_event ?H 0x100000064 ?s)) =
             [Hpet_rd 0xf0 1005, Hpet_wr 0x108 ((1005 :: u32) + ucast (0x100000064 :: u64)),
              Hpet_rd 0xf0 1021]"
    by code_simp
  obtain cnt v now where
    tr: "trace (snd (hpet_next_event ?H 0x100000064 ?s)) =
          trace ?s @ [Hpet_rd (HPET_COUNTER ?H) cnt, Hpet_wr (HPET_T0_CMP ?H) v,
                      Hpet_rd (HPET_COUNTER ?H) now]"
    and v: "unat v = (unat cnt + unat (0x100000064 :: u64)) mod 2 ^ 32"
    using hpet_next_event_delta_truncated [of ?H "0x100000064" ?s]
    by blast
  from tr t have "cnt = 1005" and "v = 1005 + ucast (0x100000064 :: u64)"
    by (simp_all add: example_machine_def)
  with v have "unat ((1005 :: u32) + ucast (0x100000064 :: u64)) = (1005 + 0x100000064) mod 2 ^ 32"
    by simp
  moreover have "(1005 :: u32) + ucast (0x100000064 :: u64) = 1105"
    by simp
  ultimately show ?thesis
    using t by simp
qed

theorem hpet_next_event_too_late_witness:
  "fst (hpet_next_event example_hpet_h 10 (example_machine 1 0 0)) = Inl ETIME
   \<and> fst (hpet_next_event example_hpet_h 100 (example_machine 1 0 0)) = Inr ()
   \<and> hpet_regs (snd (hpet_next_event example_hpet_h 100 (example_machine 1 0 0))) 0x108 = 1105"
proof -
  let ?H = example_hpet_h and ?s = "example_machine 1 0 0"
  have cnt: "fst (hpet_read ?H (HPET_COUNTER ?H) ?s) = 1005"
    by code_simp
  have now1: "hpet_regs (snd (hpet_next_event ?H 10 ?s)) (HPET_COUNTER ?H) = 1021"
    by code_simp
  have now2: "hpet_regs (snd (hpet_next_event ?H 100 ?s)) (HPET_COUNTER ?H) = 1021"
    by code_simp
  have d: "HPET_T0_CMP ?H \<noteq> HPET_COUNTER ?H \<and> HPET_T0_CMP ?H \<noteq> HPET_COUNTER ?H + 4"
    and c: "HPET_T0_CMP ?H = 0x108"
    by (simp_all add: example_hpet_h_def)
  show ?thesis
    using hpet_next_event_too_late [of ?H ?s 10] hpet_next_event_too_late [of ?H ?s 100] d
    by (simp add: Let_def cnt now1 now2 c)
qed

section \<open>Properties of the board environment resolver\<close>

declare decimal.simps [simp del]

subsection \<open>Strings\<close>

lemma contains_Nil: "contains [] key \<longleftrightarrow> key = []"
  by (simp add: contains_def)

lemma take_eq_iff_prefix: "take (length key) s = key \<longleftrightarrow> (\<exists>post. s = key @ post)"
  by (metis append_eq_conv_conj append_take_drop_id)

lemma contains_Cons:
  "contains (c # s) key \<longleftrightarrow> take (length key) (c # s) = key \<or> contains s key"
proof
  assume "contains (c # s) key"
  then obtain pre post where eq: "c # s = pre @ key @ post"
    by (auto simp: contains_def)
  show "take (length key) (c # s) = key \<or> contains s key"
  proof (cases pre)
    case Nil
    with eq show ?thesis by simp
  next
    case (Cons a pre')
    with eq have "s = pre' @ key @ post" by simp
    then show ?thesis by (auto simp: contains_def)
  qed
next
  assume "take (length key) (c # s) = key \<or> contains s key"
  then show "contains (c # s) key"
  proof
    assume "take (length key) (c # s) = key"
    then obtain post where "c # s = key @ post"
      using take_eq_iff_prefix by blast
    then have "c # s = [] @ key @ post" by simp
    then show ?thesis unfolding contains_def by blast
  next
    assume "contains s key"
    then obtain pre post where "s = pre @ key @ post"
      by (auto simp: contains_def)
    then have "c # s = (c # pre) @ key @ post" by simp
    then show ?thesis unfolding contains_def by blast
  qed
qed

lemma strstr_contains: "strstr s1 s2 \<noteq> None \<longleftrightarrow> contains s1 s2"
  by (induction s1) (auto simp add: contains_Nil contains_Cons)

lemma of_char_eq_0_iff: "(of_char c :: nat) = 0 \<longleftrightarrow> c = CHR 0x00"
proof -
  have "(of_char c :: nat) = of_char (CHR 0x00) \<longleftrightarrow> c = CHR 0x00"
    by (rule of_char_eq_iff)
  then show ?thesis by simp
qed

lemma strncmp_eq_0_iff:
  "CHR 0x00 \<notin> set cs \<Longrightarrow> strncmp cs ct (length cs) = 0 \<longleftrightarrow> take (length cs) ct = cs"
proof (induction cs arbitrary: ct)
  case Nil
  then show ?case by simp
next
  case (Cons c cs)
  then have c0: "(of_char c :: nat) \<noteq> 0" and rest: "CHR 0x00 \<notin> set cs"
    by (auto simp add: of_char_eq_0_iff)
  show ?case
  proof (cases ct)
    case Nil
    with c0 show ?thesis by (simp add: byte_at_def Let_def)
  next
    case (Cons d ct')
    show ?thesis
    proof (cases "c = d")
      case True
      with Cons c0 Cons.IH [OF rest, of ct'] show ?thesis
        by (simp add: byte_at_def Let_def)
    next
      case False
      with Cons show ?thesis
        by (simp add: byte_at_def Let_def)
    qed
  qed
qed

subsection \<open>Decimal numbers\<close>

lemma less_10_cases:
  assumes "d < (10 :: nat)"
  shows "d = 0 \<or> d = 1 \<or> d = 2 \<or> d = 3 \<or> d = 4 \<or> d = 5 \<or> d = 6 \<or> d = 7 \<or> d = 8 \<or> d = 9"
  using assms by arith

lemma digit_val_digit_char: "d < 10 \<Longrightarrow> digit_val (digit_char d) = Some d"
  using less_10_cases [of d] by (auto simp add: digit_val_def digit_char_def)

lemma digit_val_plus: "digit_val (CHR ''+'') = None"
  by (simp add: digit_val_def)

lemma parse_integer_digits:
  "\<forall>x \<in> set xs. digit_val x \<noteq> None \<Longrightarrow>
   parse_integer (xs @ ys) acc = parse_integer ys (fst (parse_integer xs acc))"
  by (induction xs arbitrary: acc) auto

lemma decimal_digits: "\<forall>x \<in> set (decimal n). digit_val x \<noteq> None"
proof (induction n rule: decimal.induct)
  case (1 n)
  show ?case
  proof (cases "n < 10")
    case True
    then show ?thesis
      by (subst decimal.simps) (simp add: digit_val_digit_char)
  next
    case False
    with 1 show ?thesis
      by (subst decimal.simps) (simp add: digit_val_digit_char)
  qed
qed

lemma parse_integer_decimal: "parse_integer (decimal n) 0 = (n, [])"
proof (induction n rule: decimal.induct)
  case (1 n)
  show ?case
  proof (cases "n < 10")
    case True
    then show ?thesis
      by (subst decimal.simps) (simp add: digit_val_digit_char)
  next
    case False
    then have "parse_integer (decimal n) 0 =
          parse_integer [digit_char (n mod 10)] (fst (parse_integer (decimal (n div 10)) 0))"
      by (subst decimal.simps) (simp add: parse_integer_digits [OF decimal_digits])
    with False 1 show ?thesis
      by (simp add: digit_val_digit_char)
  qed
qed

lemma decimal_Cons: "\<exists>c t. decimal n = c # t \<and> digit_val c \<noteq> None"
proof (cases "decimal n")
  case Nil
  then show ?thesis
    by (subst (asm) decimal.simps) (simp split: if_splits)
next
  case (Cons c t)
  then show ?thesis
    using decimal_digits [of n] by simp
qed

lemma kstrtou32_decimal:
  assumes "n < 2 ^ 32"
  shows "kstrtou32 (decimal n) = Some (of_nat n)"
proof -
  obtain c t where ct: "decimal n = c # t" and digit: "digit_val c \<noteq> None"
    using decimal_Cons by blast
  have plus: "c \<noteq> CHR ''+''"
    using digit digit_val_plus by auto
  have "parse_integer (c # t) 0 = (n, [])"
    using parse_integer_decimal [of n] by (simp only: ct)
  with assms plus show ?thesis
    by (simp add: kstrtou32_def ct Let_def del: parse_integer.simps)
qed

subsection \<open>The legacy argument list\<close>

lemma parse_even_earlier_match:
  assumes "CHR 0x00 \<notin> set key" and "n < 2 ^ 32"
  shows "parse_even_earlier res key (key @ ''='' @ decimal n) = of_nat n"
proof -
  have "strncmp key (key @ ''='' @ decimal n) (length key) = 0"
    using strncmp_eq_0_iff [OF assms(1)] by simp
  then show ?thesis
    using kstrtou32_decimal [OF assms(2)] by (simp add: parse_even_earlier_def strlen_def)
qed

lemma parse_even_earlier_other:
  assumes "CHR 0x00 \<notin> set key" and "take (length key) p \<noteq> key"
  shows "parse_even_earlier res key p = res"
  using assms strncmp_eq_0_iff [of key p] by (simp add: parse_even_earlier_def strlen_def)

lemma prom_envp_loop_cpu_clock_freq:
  "cpu_clock_freq (prom_envp_loop envp g) =
     foldl (\<lambda>res l. parse_even_earlier res ''cpuclock'' l) (cpu_clock_freq g) envp"
  by (induction envp arbitrary: g) (simp_all add: Let_def)

lemma prom_envp_loop_memsize:
  "memsize (prom_envp_loop envp g) =
     foldl (\<lambda>res l. parse_even_earlier res ''memsize'' l) (memsize g) envp"
  by (induction envp arbitrary: g) (simp_all add: Let_def)

lemma prom_envp_loop_others [simp]:
  "loongson_sysconf (prom_envp_loop envp g) = loongson_sysconf g"
  "loongson_pch (prom_envp_loop envp g) = loongson_pch g"
  by (induction envp arbitrary: g) (simp_all add: Let_def)

lemma foldl_parse_other:
  assumes "CHR 0x00 \<notin> set key" and "\<forall>e \<in> set envp. take (length key) e \<noteq> key"
  shows "foldl (\<lambda>res l. parse_even_earlier res key l) res envp = res"
  using assms(2) by (induction envp) (simp_all add: parse_even_earlier_other [OF assms(1)])

lemma cpuclock_last_entry:
  assumes "n < 2 ^ 32"
    and "envp = pre @ [''cpuclock='' @ decimal n] @ post"
    and "\<forall>e \<in> set post. take 8 e \<noteq> ''cpuclock''"
  shows "cpu_clock_freq (prom_envp_loop envp g) = of_nat n"
proof -
  have nul: "CHR 0x00 \<notin> set ''cpuclock''"
    by simp
  have "parse_even_earlier res ''cpuclock'' (''cpuclock='' @ decimal n) = of_nat n" for res
    using parse_even_earlier_match [OF nul assms(1), of res] by simp
  moreover have "foldl (\<lambda>res l. parse_even_earlier res ''cpuclock'' l) res post = res" for res
  proof -
    have len: "length ''cpuclock'' = 8"
      by simp
    have "\<forall>e \<in> set post. take (length ''cpuclock'') e \<noteq> ''cpuclock''"
      unfolding len by (rule assms(3))
    then show ?thesis
      by (rule foldl_parse_other [OF nul])
  qed
  ultimately show ?thesis
    by (simp add: prom_envp_loop_cpu_clock_freq assms(2))
qed

lemma memsize_no_entry:
  assumes "\<forall>e \<in> set envp. take 7 e \<noteq> ''memsize''"
  shows "memsize (prom_envp_loop envp g) = memsize g"
proof -
  have nul: "CHR 0x00 \<notin> set ''memsize''"
    by simp
  have len: "length ''memsize'' = 7"
    by simp
  have "\<forall>e \<in> set envp. take (length ''memsize'') e \<noteq> ''memsize''"
    unfolding len by (rule assms)
  then have "foldl (\<lambda>res l. parse_even_earlier res ''memsize'' l) (memsize g) envp = memsize g"
    by (rule foldl_parse_other [OF nul])
  then show ?thesis
    by (simp only: prom_envp_loop_memsize)
qed

lemma unat_of_nat_u32: "n < 2 ^ 32 \<Longrightarrow> unat (of_nat n :: u32) = n"
  by (simp add: unat_of_nat take_bit_nat_eq_self)

lemma prom_init_env_clock_nonzero:
  "cpu_clock_freq g \<noteq> 0 \<Longrightarrow>
   cpu_clock_freq (prom_init_env_clock K processor_id g) = cpu_clock_freq g \<and>
   mips_cpu_frequency (prom_init_env_clock K processor_id g) = cpu_clock_freq g"
  by (simp add: prom_init_env_clock_def Let_def)

lemma prom_init_env_legacy_fields:
  "cpu_clock_freq (prom_init_env_legacy envp g) = cpu_clock_freq (prom_envp_loop envp g)"
  "memsize (prom_init_env_legacy envp g) =
     (if memsize (prom_envp_loop envp g) = 0 then 256 else memsize (prom_envp_loop envp g))"
  "loongson_pch (prom_init_env_legacy envp g) = Some dummy_pch"
  "nr_uarts (loongson_sysconf (prom_init_env_legacy envp g)) = 1"
  by (simp_all add: prom_init_env_legacy_def Let_def)

text \<open>
  Claim C8. For every argument list (the strings before the null pointer) and every
  state of the globals: when the last entry that starts with \<^verbatim>\<open>cpuclock\<close> is
  \<^verbatim>\<open>cpuclock=N\<close>, with \<open>N\<close> written in decimal and fitting 32 bits, the legacy block
  (lines 61 to 82) leaves \<^verbatim>\<open>cpu_clock_freq\<close> equal to \<open>N\<close>, and unless \<open>N\<close> is 0 the
  whole function leaves both \<^verbatim>\<open>cpu_clock_freq\<close> and \<^verbatim>\<open>mips_cpu_frequency\<close> equal to
  \<open>N\<close> (a frequency of 0 is replaced afterwards by the default of the CPU revision);
  when no entry starts with \<^verbatim>\<open>memsize\<close> and the memory size has not been set before
  (it is 0, as at boot), the memory size is 256; and the hub is always the dummy hub,
  with one UART.
\<close>

theorem prom_init_env_legacy_arguments:
  "(n < 2 ^ 32 \<and> envp = pre @ [''cpuclock='' @ decimal n] @ post \<and>
      (\<forall>e \<in> set post. take 8 e \<noteq> ''cpuclock'') \<longrightarrow>
      unat (cpu_clock_freq (prom_init_env_legacy envp g)) = n \<and>
      (n \<noteq> 0 \<longrightarrow>
        unat (cpu_clock_freq (prom_init_env K (Prom_envp envp) processor_id ebase_cpunum g)) = n \<and>
        unat (mips_cpu_frequency (prom_init_env K (Prom_envp envp) processor_id ebase_cpunum g)) = n))
   \<and> ((\<forall>e \<in> set envp. take 7 e \<noteq> ''memsize'') \<and> memsize g = 0 \<longrightarrow>
        memsize (prom_init_env_legacy envp g) = 256 \<and>
        memsize (prom_init_env K (Prom_envp envp) processor_id ebase_cpunum g) = 256)
   \<and> loongson_pch (prom_init_env_legacy envp g) = Some dummy_pch
   \<and> nr_uarts (loongson_sysconf (prom_init_env_legacy envp g)) = 1
   \<and> loongson_pch (prom_init_env K (Prom_envp envp) processor_id ebase_cpunum g) = Some dummy_pch
   \<and> nr_uarts (loongson_sysconf (prom_init_env K (Prom_envp envp) processor_id ebase_cpunum g)) = 1"
proof -
  let ?g = "prom_init_env_legacy envp g"
  let ?g' = "prom_init_env K (Prom_envp envp) processor_id ebase_cpunum g"
  have whole: "?g' = prom_init_env_clock K processor_id ?g"
    by (simp add: prom_init_env_def)
  have keep: "memsize ?g' = memsize ?g" "loongson_pch ?g' = loongson_pch ?g"
    "loongson_sysconf ?g' = loongson_sysconf ?g"
    by (simp_all add: whole prom_init_env_clock_def Let_def)
  have clock: "unat (cpu_clock_freq ?g) = n \<and>
      (n \<noteq> 0 \<longrightarrow> unat (cpu_clock_freq ?g') = n \<and> unat (mips_cpu_frequency ?g') = n)"
    if n: "n < 2 ^ 32" and envp: "envp = pre @ [''cpuclock='' @ decimal n] @ post"
      and post: "\<forall>e \<in> set post. take 8 e \<noteq> ''cpuclock''"
  proof -
    have f: "cpu_clock_freq ?g = of_nat n"
      using cpuclock_last_entry [OF n envp post] by (simp add: prom_init_env_legacy_fields)
    then have u: "unat (cpu_clock_freq ?g) = n"
      using n by (simp add: unat_of_nat_u32)
    have "cpu_clock_freq ?g \<noteq> 0" if "n \<noteq> 0"
      using u that by (metis unat_0)
    then show ?thesis
      using u prom_init_env_clock_nonzero [of ?g K processor_id] by (simp add: whole)
  qed
  have mem: "memsize ?g = 256"
    if "\<forall>e \<in> set envp. take 7 e \<noteq> ''memsize''" and "memsize g = 0"
    using that memsize_no_entry [of envp g] by (simp add: prom_init_env_legacy_fields)
  show ?thesis
    using clock mem by (simp add: keep prom_init_env_legacy_fields)
qed

subsection \<open>The firmware tables\<close>

lemma prom_init_env_sys_fields [simp]:
  "loongson_pch (prom_init_env_sys K boot_p g) = loongson_pch g"
  "loongson_fdt_blob (prom_init_env_sys K boot_p g) = loongson_fdt_blob g"
  "cpu_clock_freq (prom_init_env_sys K boot_p g) = cpu_clock_freq g"
  "ec_sci_irq (loongson_sysconf (prom_init_env_sys K boot_p g)) = ec_sci_irq (loongson_sysconf g)"
  "nr_cpus (loongson_sysconf (prom_init_env_sys K boot_p g)) = nr_cpus (loongson_sysconf g)"
  "nr_nodes (loongson_sysconf (prom_init_env_sys K boot_p g)) = nr_nodes (loongson_sysconf g)"
  "cores_per_node (loongson_sysconf (prom_init_env_sys K boot_p g)) =
     cores_per_node (loongson_sysconf g)"
  "cores_per_package (loongson_sysconf (prom_init_env_sys K boot_p g)) =
     cores_per_package (loongson_sysconf g)"
  by (simp_all add: prom_init_env_sys_def Let_def)

lemma prom_init_env_pch_fields [simp]:
  "cpu_clock_freq (prom_init_env_pch eboard esys g) = cpu_clock_freq g"
  "nr_cpus (loongson_sysconf (prom_init_env_pch eboard esys g)) = nr_cpus (loongson_sysconf g)"
  "nr_nodes (loongson_sysconf (prom_init_env_pch eboard esys g)) = nr_nodes (loongson_sysconf g)"
  "cores_per_node (loongson_sysconf (prom_init_env_pch eboard esys g)) =
     cores_per_node (loongson_sysconf g)"
  "cores_per_package (loongson_sysconf (prom_init_env_pch eboard esys g)) =
     cores_per_package (loongson_sysconf g)"
  "nr_uarts (loongson_sysconf (prom_init_env_pch eboard esys g)) = nr_uarts (loongson_sysconf g)"
  "uarts (loongson_sysconf (prom_init_env_pch eboard esys g)) = uarts (loongson_sysconf g)"
  "nr_sensors (loongson_sysconf (prom_init_env_pch eboard esys g)) =
     nr_sensors (loongson_sysconf g)"
  "sensors (loongson_sysconf (prom_init_env_pch eboard esys g)) = sensors (loongson_sysconf g)"
  by (simp_all add: prom_init_env_pch_def Let_def)

lemma prom_init_env_bus_fields [simp]:
  "cpu_clock_freq (prom_init_env_bus eirq g) = cpu_clock_freq g"
  "nr_cpus (loongson_sysconf (prom_init_env_bus eirq g)) = nr_cpus (loongson_sysconf g)"
  "nr_nodes (loongson_sysconf (prom_init_env_bus eirq g)) = nr_nodes (loongson_sysconf g)"
  "cores_per_node (loongson_sysconf (prom_init_env_bus eirq g)) =
     cores_per_node (loongson_sysconf g)"
  "cores_per_package (loongson_sysconf (prom_init_env_bus eirq g)) =
     cores_per_package (loongson_sysconf g)"
  "nr_uarts (loongson_sysconf (prom_init_env_bus eirq g)) = nr_uarts (loongson_sysconf g)"
  "uarts (loongson_sysconf (prom_init_env_bus eirq g)) = uarts (loongson_sysconf g)"
  "nr_sensors (loongson_sysconf (prom_init_env_bus eirq g)) = nr_sensors (loongson_sysconf g)"
  "sensors (loongson_sysconf (prom_init_env_bus eirq g)) = sensors (loongson_sysconf g)"
  by (simp_all add: prom_init_env_bus_def Let_def)

lemma prom_init_env_cpu_fields [simp]:
  "nr_uarts (loongson_sysconf (prom_init_env_cpu K ecpu e g)) = nr_uarts (loongson_sysconf g)"
  "uarts (loongson_sysconf (prom_init_env_cpu K ecpu e g)) = uarts (loongson_sysconf g)"
  "nr_sensors (loongson_sysconf (prom_init_env_cpu K ecpu e g)) = nr_sensors (loongson_sysconf g)"
  "sensors (loongson_sysconf (prom_init_env_cpu K ecpu e g)) = sensors (loongson_sysconf g)"
  by (simp_all add: prom_init_env_cpu_def Let_def)

lemma prom_init_env_clock_fields [simp]:
  "loongson_pch (prom_init_env_clock K p g) = loongson_pch g"
  "loongson_sysconf (prom_init_env_clock K p g) = loongson_sysconf g"
  "loongson_fdt_blob (prom_init_env_clock K p g) = loongson_fdt_blob g"
  by (simp_all add: prom_init_env_clock_def Let_def)

lemma prom_init_env_lefi_unfold:
  "prom_init_env K (Lefi_boot_params boot_p) p e g =
     prom_init_env_clock K p
       (prom_init_env_sys K boot_p
         (prom_init_env_pch (at_boarddev_table_offset boot_p) (at_system_offset boot_p)
           (prom_init_env_bus (at_irq_offset boot_p)
             (prom_init_env_cpu K (at_cpu_offset boot_p) e g))))"
  by (simp add: prom_init_env_def prom_init_env_lefi_def Let_def)

subsection \<open>Hub\<close>

lemma prom_init_env_pch_hub:
  "loongson_pch (prom_init_env_pch eboard esys g) =
     (if contains (eboard_name eboard) ''2H'' then Some ls2h_pch
      else if contains (eboard_name eboard) ''7A'' then Some ls7a_pch
      else Some rs780_pch)"
  "ec_sci_irq (loongson_sysconf (prom_init_env_pch eboard esys g)) =
     (if contains (eboard_name eboard) ''2H'' then 0x80
      else if contains (eboard_name eboard) ''7A'' then 0x07
      else 0x07)"
  by (simp_all add: prom_init_env_pch_def Let_def flip: strstr_contains)

text \<open>
  Claim C4, amended. For every board name (and whatever else the firmware reports), the
  hub is chosen by looking for a substring, with the case of the letters significant,
  in a fixed order: a name that contains \<^verbatim>\<open>2H\<close> selects the LS2H hub with
  \<^verbatim>\<open>ec_sci_irq\<close> 0x80; otherwise a name that contains \<^verbatim>\<open>7A\<close> selects the LS7A hub
  with \<^verbatim>\<open>ec_sci_irq\<close> 0x07; otherwise the RS780E hub is selected, with \<^verbatim>\<open>ec_sci_irq\<close>
  0x07.
\<close>

theorem prom_init_env_selects_hub:
  "loongson_pch (prom_init_env K (Lefi_boot_params boot_p) processor_id ebase_cpunum g) =
     (if contains (eboard_name (at_boarddev_table_offset boot_p)) ''2H'' then Some ls2h_pch
      else if contains (eboard_name (at_boarddev_table_offset boot_p)) ''7A'' then Some ls7a_pch
      else Some rs780_pch)
   \<and> ec_sci_irq (loongson_sysconf
        (prom_init_env K (Lefi_boot_params boot_p) processor_id ebase_cpunum g)) =
     (if contains (eboard_name (at_boarddev_table_offset boot_p)) ''2H'' then 0x80
      else if contains (eboard_name (at_boarddev_table_offset boot_p)) ''7A'' then 0x07
      else 0x07)"
  by (simp add: prom_init_env_lefi_unfold prom_init_env_pch_hub)

text \<open>
  The claim as it was stated, with a match that ignores the case of letters, fails on
  the name \<^verbatim>\<open>Loongson-2h\<close>: the claim selects the LS2H hub, the code the RS780E hub.
\<close>

theorem prom_init_env_selects_hub_counterexample:
  "spec_hub_ignoring_case ''Loongson-2h'' = (ls2h_pch, 0x80)
   \<and> loongson_pch (prom_init_env example_env_h
        (Lefi_boot_params (example_boot_params ''Loongson-2h'' Loongson_3A 4 1 0)) 0 0 boot_env) =
      Some rs780_pch
   \<and> ec_sci_irq (loongson_sysconf (prom_init_env example_env_h
        (Lefi_boot_params (example_boot_params ''Loongson-2h'' Loongson_3A 4 1 0)) 0 0 boot_env)) =
      0x07"
  by (simp add: spec_hub_ignoring_case_def contains_ignoring_case_def to_upper_def
      prom_init_env_lefi_unfold prom_init_env_pch_def Let_def example_boot_params_def)

subsection \<open>CPUs and nodes\<close>

lemma ceiling_div_nat:
  assumes "0 < c"
  shows "\<lceil>real a / real c\<rceil> = int ((a + c - 1) div c)"
proof -
  define q where "q = (a + c - 1) div c"
  define r where "r = (a + c - 1) mod c"
  have eq: "q * c + r = a + c - 1"
    by (simp add: q_def r_def)
  have r: "r < c"
    using assms by (simp add: r_def)
  have lo: "a \<le> q * c" and hi: "q * c < a + c"
    using eq r assms by arith+
  have "real a \<le> real q * real c"
    using lo by (metis of_nat_le_iff of_nat_mult)
  then have up: "real a / real c \<le> real q"
    using assms by (simp add: pos_divide_le_eq)
  have "real q * real c < real a + real c"
    using hi by (metis of_nat_less_iff of_nat_mult of_nat_add)
  then have "(real q - 1) * real c < real a"
    by (simp add: algebra_simps)
  then have down: "real q - 1 < real a / real c"
    using assms by (simp add: pos_less_divide_eq)
  have "\<lceil>real a / real c\<rceil> = int q"
    by (rule ceiling_unique) (use up down in simp_all)
  then show ?thesis
    by (simp add: q_def)
qed

lemma unat_nr_nodes:
  fixes n c :: u32
  assumes "unat n + unat c \<le> 2 ^ 32" and "c \<noteq> 0"
  shows "unat ((n + c - 1) div c) = (unat n + unat c - 1) div unat c"
proof -
  have c1: "1 \<le> unat c"
    using assms(2) by (simp add: unat_gt_0 Suc_leI)
  have m1: "unat (c - 1) = unat c - 1"
    using assms(2) by (rule unat_minus_one)
  have "unat n + unat (c - 1) < 2 ^ LENGTH(32)"
    using assms(1) c1 by (simp add: m1)
  then have "unat (n + (c - 1)) = unat n + unat (c - 1)"
    by (simp only: unat_add_lem)
  then have "unat (n + c - 1) = unat n + unat c - 1"
    using c1 by (simp add: m1 add_diff_eq)
  then show ?thesis
    by (simp add: unat_div)
qed


lemma prom_init_env_cpu_counts:
  "cores_per_node (loongson_sysconf (prom_init_env_cpu K ecpu e g)) =
     (if ecpu_cputype ecpu \<in> {Legacy_3A, Loongson_3A, Legacy_3B, Loongson_3B} then 4 else 1)"
  "cores_per_package (loongson_sysconf (prom_init_env_cpu K ecpu e g)) =
     (if ecpu_cputype ecpu \<in> {Legacy_3A, Loongson_3A} then 4
      else if ecpu_cputype ecpu \<in> {Legacy_3B, Loongson_3B} then 8 else 1)"
  "nr_cpus (loongson_sysconf (prom_init_env_cpu K ecpu e g)) =
     (if ecpu_nr_cpus ecpu = 0 \<or> ecpu_nr_cpus ecpu > NR_CPUS K then NR_CPUS K
      else ecpu_nr_cpus ecpu)"
  "nr_nodes (loongson_sysconf (prom_init_env_cpu K ecpu e g)) =
     (nr_cpus (loongson_sysconf (prom_init_env_cpu K ecpu e g)) +
      cores_per_node (loongson_sysconf (prom_init_env_cpu K ecpu e g)) - 1) div
     cores_per_node (loongson_sysconf (prom_init_env_cpu K ecpu e g))"
  by (auto simp add: prom_init_env_cpu_def Let_def)

text \<open>
  Claim C7. For every CPU count the firmware reports (and a build whose maximum
  \<^verbatim>\<open>NR_CPUS\<close> is not within 4 of the largest 32-bit number): a count that is zero
  or greater than \<^verbatim>\<open>NR_CPUS\<close> is replaced by \<^verbatim>\<open>NR_CPUS\<close>, any other count is kept;
  \<^verbatim>\<open>cores_per_node\<close> is 4 for the four 3A and 3B types and 1 for every other type
  (\<^verbatim>\<open>cores_per_package\<close> is 4 for 3A, 8 for 3B and 1 otherwise); and
  the number of nodes is the count, after the replacement, divided by
  \<^verbatim>\<open>cores_per_node\<close> and rounded up.
\<close>

theorem prom_init_env_cpus_and_nodes:
  assumes "unat (NR_CPUS K) + 4 \<le> 2 ^ 32"
  shows "let c = loongson_sysconf
                   (prom_init_env K (Lefi_boot_params boot_p) processor_id ebase_cpunum g);
             reported = ecpu_nr_cpus (at_cpu_offset boot_p)
         in nr_cpus c = (if reported = 0 \<or> reported > NR_CPUS K then NR_CPUS K else reported)
          \<and> cores_per_node c =
              (if ecpu_cputype (at_cpu_offset boot_p) \<in>
                    {Legacy_3A, Loongson_3A, Legacy_3B, Loongson_3B} then 4 else 1)
          \<and> cores_per_package c =
              (if ecpu_cputype (at_cpu_offset boot_p) \<in> {Legacy_3A, Loongson_3A} then 4
               else if ecpu_cputype (at_cpu_offset boot_p) \<in> {Legacy_3B, Loongson_3B} then 8
               else 1)
          \<and> int (unat (nr_nodes c)) =
              \<lceil>real (unat (nr_cpus c)) / real (unat (cores_per_node c))\<rceil>"
proof -
  let ?g = "prom_init_env_cpu K (at_cpu_offset boot_p) ebase_cpunum g"
  let ?c = "loongson_sysconf ?g"
  let ?c' = "loongson_sysconf
               (prom_init_env K (Lefi_boot_params boot_p) processor_id ebase_cpunum g)"
  have same: "nr_cpus ?c' = nr_cpus ?c" "cores_per_node ?c' = cores_per_node ?c"
    "nr_nodes ?c' = nr_nodes ?c" "cores_per_package ?c' = cores_per_package ?c"
    by (simp_all add: prom_init_env_lefi_unfold)
  note counts = prom_init_env_cpu_counts [of K "at_cpu_offset boot_p" ebase_cpunum g]
  have le: "unat (nr_cpus ?c) \<le> unat (NR_CPUS K)"
    by (auto simp add: counts(3) word_le_nat_alt word_less_nat_alt)
  have cpn: "cores_per_node ?c = 4 \<or> cores_per_node ?c = 1"
    by (simp add: counts(1))
  then have c0: "cores_per_node ?c \<noteq> 0" and c4: "unat (cores_per_node ?c) \<le> 4"
    and cpos: "0 < unat (cores_per_node ?c)"
    by auto
  have sum: "unat (nr_cpus ?c) + unat (cores_per_node ?c) \<le> 2 ^ 32"
    using le c4 assms by linarith
  have nn: "unat (nr_nodes ?c) =
               (unat (nr_cpus ?c) + unat (cores_per_node ?c) - 1) div unat (cores_per_node ?c)"
    by (subst counts(4)) (rule unat_nr_nodes [OF sum c0])
  have C: "int (unat (nr_nodes ?c')) =
             \<lceil>real (unat (nr_cpus ?c')) / real (unat (cores_per_node ?c'))\<rceil>"
    by (simp only: same nn ceiling_div_nat [OF cpos])
  have A: "nr_cpus ?c' =
             (if ecpu_nr_cpus (at_cpu_offset boot_p) = 0 \<or>
                 ecpu_nr_cpus (at_cpu_offset boot_p) > NR_CPUS K
              then NR_CPUS K else ecpu_nr_cpus (at_cpu_offset boot_p))"
    by (simp only: same counts(3))
  have B: "cores_per_node ?c' =
             (if ecpu_cputype (at_cpu_offset boot_p) \<in>
                   {Legacy_3A, Loongson_3A, Legacy_3B, Loongson_3B} then 4 else 1)"
    by (simp only: same counts(1))
  have D: "cores_per_package ?c' =
             (if ecpu_cputype (at_cpu_offset boot_p) \<in> {Legacy_3A, Loongson_3A} then 4
              else if ecpu_cputype (at_cpu_offset boot_p) \<in> {Legacy_3B, Loongson_3B} then 8
              else 1)"
    by (simp only: same counts(2))
  show ?thesis
    unfolding Let_def using A B C D by blast
qed

subsection \<open>UARTs and sensors\<close>

lemma prom_init_env_sys_tables:
  "nr_uarts (loongson_sysconf (prom_init_env_sys K boot_p g)) =
     (if esys_nr_uarts (at_system_offset boot_p) < 1 \<or>
         esys_nr_uarts (at_system_offset boot_p) > MAX_UARTS K
      then 1 else esys_nr_uarts (at_system_offset boot_p))"
  "uarts (loongson_sysconf (prom_init_env_sys K boot_p g)) =
     memcpy (uarts (loongson_sysconf g)) (esys_uarts (at_system_offset boot_p))
       (unat (nr_uarts (loongson_sysconf (prom_init_env_sys K boot_p g))))"
  "nr_sensors (loongson_sysconf (prom_init_env_sys K boot_p g)) =
     (if esys_nr_sensors (at_system_offset boot_p) > MAX_SENSORS K
      then 0 else esys_nr_sensors (at_system_offset boot_p))"
  "sensors (loongson_sysconf (prom_init_env_sys K boot_p g)) =
     memcpy (sensors (loongson_sysconf g)) (esys_sensors (at_system_offset boot_p))
       (unat (nr_sensors (loongson_sysconf (prom_init_env_sys K boot_p g))))"
  by (auto simp add: prom_init_env_sys_def Let_def memcpy_def)

text \<open>
  Claim C5, amended. No count makes the function fail. A UART count that is zero or
  greater than \<^verbatim>\<open>MAX_UARTS\<close> becomes 1, any other is kept, and that many UART
  descriptors are copied from the firmware table. A sensor count greater than
  \<^verbatim>\<open>MAX_SENSORS\<close> becomes 0, any other is kept, and that many sensor descriptors are
  copied (none for 0). So the resulting sensor count is at most \<^verbatim>\<open>MAX_SENSORS\<close> and
  the resulting UART count is between 1 and \<^verbatim>\<open>MAX_UARTS\<close>.
\<close>

theorem prom_init_env_uarts_and_sensors:
  "let esys = at_system_offset boot_p;
       c = loongson_sysconf
             (prom_init_env K (Lefi_boot_params boot_p) processor_id ebase_cpunum g)
   in nr_uarts c = (if esys_nr_uarts esys < 1 \<or> esys_nr_uarts esys > MAX_UARTS K
                    then 1 else esys_nr_uarts esys)
    \<and> uarts c = take (unat (nr_uarts c)) (esys_uarts esys) @
                 drop (unat (nr_uarts c)) (uarts (loongson_sysconf g))
    \<and> nr_sensors c = (if esys_nr_sensors esys > MAX_SENSORS K then 0 else esys_nr_sensors esys)
    \<and> sensors c = take (unat (nr_sensors c)) (esys_sensors esys) @
                   drop (unat (nr_sensors c)) (sensors (loongson_sysconf g))
    \<and> nr_sensors c \<le> MAX_SENSORS K
    \<and> (1 \<le> MAX_UARTS K \<longrightarrow> 1 \<le> nr_uarts c \<and> nr_uarts c \<le> MAX_UARTS K)"
proof -
  let ?g = "prom_init_env_pch (at_boarddev_table_offset boot_p) (at_system_offset boot_p)
              (prom_init_env_bus (at_irq_offset boot_p)
                (prom_init_env_cpu K (at_cpu_offset boot_p) ebase_cpunum g))"
  have before: "uarts (loongson_sysconf ?g) = uarts (loongson_sysconf g)"
    "sensors (loongson_sysconf ?g) = sensors (loongson_sysconf g)"
    by simp_all
  note t = prom_init_env_sys_tables [of K boot_p ?g, unfolded before memcpy_def]
  have unf: "loongson_sysconf
               (prom_init_env K (Lefi_boot_params boot_p) processor_id ebase_cpunum g) =
             loongson_sysconf (prom_init_env_sys K boot_p ?g)"
    by (simp add: prom_init_env_lefi_unfold)
  have bound: "nr_sensors (loongson_sysconf (prom_init_env_sys K boot_p ?g)) \<le> MAX_SENSORS K"
    by (simp add: t(3) not_less)
  have ubound: "1 \<le> nr_uarts (loongson_sysconf (prom_init_env_sys K boot_p ?g)) \<and>
                nr_uarts (loongson_sysconf (prom_init_env_sys K boot_p ?g)) \<le> MAX_UARTS K"
    if "1 \<le> MAX_UARTS K"
    using that by (auto simp add: t(1) word_le_nat_alt word_less_nat_alt)
  show ?thesis
    unfolding Let_def unf using t bound ubound by simp
qed

text \<open>
  The claim as it was stated has a sensor count above the maximum clamped to the
  maximum. With a maximum of 64 and 65 sensors reported, the code leaves 0, not 64.
\<close>

theorem prom_init_env_uarts_and_sensors_counterexample:
  "MAX_SENSORS example_env_h = 64
   \<and> esys_nr_sensors (at_system_offset (example_boot_params ''Loongson-7A1000'' Loongson_3A 4 2 65)) = 65
   \<and> nr_sensors (loongson_sysconf (prom_init_env example_env_h
        (Lefi_boot_params (example_boot_params ''Loongson-7A1000'' Loongson_3A 4 2 65)) 0 0 boot_env)) = 0"
  by (simp add: prom_init_env_lefi_unfold prom_init_env_sys_tables example_boot_params_def
      example_env_h_def)

subsection \<open>The resolver on example tables\<close>

text \<open>
  Each theorem above is applied here to example tables and arguments, among them the two
  scenarios of the specification.
\<close>

lemma decimal_small: "n < 10 \<Longrightarrow> decimal n = [digit_char n]"
  by (simp add: decimal.simps)

lemma decimal_large: "10 \<le> n \<Longrightarrow> decimal n = decimal (n div 10) @ [digit_char (n mod 10)]"
  by (subst decimal.simps) simp

theorem prom_init_env_legacy_arguments_witness:
  "unat (cpu_clock_freq (prom_init_env_legacy [''cpuclock=800000000'', ''memsize=512'']
     boot_env)) = 800000000
   \<and> unat (mips_cpu_frequency (prom_init_env example_env_h
        (Prom_envp [''cpuclock=800000000'', ''memsize=512'']) 0 0 boot_env)) = 800000000
   \<and> memsize (prom_init_env_legacy [''cpuclock=800000000''] boot_env) = 256
   \<and> loongson_pch (prom_init_env_legacy [''cpuclock=800000000'', ''memsize=512''] boot_env) =
        Some dummy_pch
   \<and> nr_uarts (loongson_sysconf
        (prom_init_env_legacy [''cpuclock=800000000'', ''memsize=512''] boot_env)) = 1"
proof -
  have d: "decimal 800000000 = ''800000000''"
    by (simp add: decimal_small decimal_large digit_char_def)
  have n: "(800000000 :: nat) < 2 ^ 32 \<and> (800000000 :: nat) \<noteq> 0"
    by simp
  have e1: "[''cpuclock=800000000'', ''memsize=512''] =
              [] @ [''cpuclock='' @ decimal 800000000] @ [''memsize=512'']"
    by (simp add: d)
  have p1: "\<forall>e \<in> set [''memsize=512'']. take 8 e \<noteq> ''cpuclock''"
    by simp
  have p2: "\<forall>e \<in> set [''cpuclock=800000000'']. take 7 e \<noteq> ''memsize''"
    by simp
  have m: "memsize boot_env = 0"
    by (simp add: boot_env_def)
  show ?thesis
    using prom_init_env_legacy_arguments
        [of 800000000 "[''cpuclock=800000000'', ''memsize=512'']" "[]" "[''memsize=512'']"
          boot_env example_env_h 0 0]
      prom_init_env_legacy_arguments
        [of 0 "[''cpuclock=800000000'']" "[]" "[]" boot_env example_env_h 0 0]
      n e1 p1 p2 m
    by simp
qed

theorem prom_init_env_selects_hub_witness:
  "contains ''Loongson-7A1000'' ''7A'' \<and> \<not> contains ''Loongson-7A1000'' ''2H''
   \<and> loongson_pch (prom_init_env example_env_h
        (Lefi_boot_params (example_boot_params ''Loongson-7A1000'' Loongson_3A 4 2 0))
        0 0 boot_env) = Some ls7a_pch
   \<and> ec_sci_irq (loongson_sysconf (prom_init_env example_env_h
        (Lefi_boot_params (example_boot_params ''Loongson-7A1000'' Loongson_3A 4 2 0))
        0 0 boot_env)) = 0x07
   \<and> contains ''LS2H-7A'' ''2H''
   \<and> loongson_pch (prom_init_env example_env_h
        (Lefi_boot_params (example_boot_params ''LS2H-7A'' Loongson_3A 4 2 0))
        0 0 boot_env) = Some ls2h_pch
   \<and> ec_sci_irq (loongson_sysconf (prom_init_env example_env_h
        (Lefi_boot_params (example_boot_params ''LS2H-7A'' Loongson_3A 4 2 0))
        0 0 boot_env)) = 0x80"
proof -
  have c: "contains ''Loongson-7A1000'' ''7A''" "\<not> contains ''Loongson-7A1000'' ''2H''"
    "contains ''LS2H-7A'' ''2H''"
    by (simp_all flip: strstr_contains)
  have nm: "eboard_name (at_boarddev_table_offset (example_boot_params name cpu n u s)) = name"
    for name cpu n u s
    by (simp add: example_boot_params_def)
  show ?thesis
    using prom_init_env_selects_hub
        [of example_env_h "example_boot_params ''Loongson-7A1000'' Loongson_3A 4 2 0" 0 0 boot_env]
      prom_init_env_selects_hub
        [of example_env_h "example_boot_params ''LS2H-7A'' Loongson_3A 4 2 0" 0 0 boot_env]
      c
    by (simp add: nm)
qed

theorem prom_init_env_cpus_and_nodes_witness:
  "unat (NR_CPUS example_env_h) + 4 \<le> 2 ^ 32
   \<and> nr_cpus (loongson_sysconf (prom_init_env example_env_h
        (Lefi_boot_params (example_boot_params ''Loongson-7A1000'' Loongson_3A 0 2 0))
        0 0 boot_env)) = 16
   \<and> unat (nr_nodes (loongson_sysconf (prom_init_env example_env_h
        (Lefi_boot_params (example_boot_params ''Loongson-7A1000'' Loongson_3A 0 2 0))
        0 0 boot_env))) = 4
   \<and> nr_cpus (loongson_sysconf (prom_init_env example_env_h
        (Lefi_boot_params (example_boot_params ''Loongson-7A1000'' Loongson_3B 5 2 0))
        0 0 boot_env)) = 5
   \<and> unat (nr_nodes (loongson_sysconf (prom_init_env example_env_h
        (Lefi_boot_params (example_boot_params ''Loongson-7A1000'' Loongson_3B 5 2 0))
        0 0 boot_env))) = 2"
proof -
  have k: "unat (NR_CPUS example_env_h) + 4 \<le> 2 ^ 32" and k16: "NR_CPUS example_env_h = 16"
    by (simp_all add: example_env_h_def)
  have f: "ecpu_nr_cpus (at_cpu_offset (example_boot_params name cpu n u s)) = n"
    "ecpu_cputype (at_cpu_offset (example_boot_params name cpu n u s)) = cpu"
    for name cpu n u s
    by (simp_all add: example_boot_params_def)
  let ?c1 = "loongson_sysconf (prom_init_env example_env_h
        (Lefi_boot_params (example_boot_params ''Loongson-7A1000'' Loongson_3A 0 2 0))
        0 0 boot_env)"
  let ?c2 = "loongson_sysconf (prom_init_env example_env_h
        (Lefi_boot_params (example_boot_params ''Loongson-7A1000'' Loongson_3B 5 2 0))
        0 0 boot_env)"
  from prom_init_env_cpus_and_nodes
        [OF k, of "example_boot_params ''Loongson-7A1000'' Loongson_3A 0 2 0" 0 0 boot_env]
  have a: "nr_cpus ?c1 = 16" "cores_per_node ?c1 = 4"
    "int (unat (nr_nodes ?c1)) = \<lceil>real (unat (nr_cpus ?c1)) / real (unat (cores_per_node ?c1))\<rceil>"
    by (simp_all add: Let_def f k16)
  from prom_init_env_cpus_and_nodes
        [OF k, of "example_boot_params ''Loongson-7A1000'' Loongson_3B 5 2 0" 0 0 boot_env]
  have b: "nr_cpus ?c2 = 5" "cores_per_node ?c2 = 4"
    "int (unat (nr_nodes ?c2)) = \<lceil>real (unat (nr_cpus ?c2)) / real (unat (cores_per_node ?c2))\<rceil>"
    by (simp_all add: Let_def f k16)
  have "int (unat (nr_nodes ?c1)) = 4"
    unfolding a(3) a(1) a(2) by simp
  then have n1: "unat (nr_nodes ?c1) = 4"
    by linarith
  have "int (unat (nr_nodes ?c2)) = 2"
    unfolding b(3) b(1) b(2) by simp
  then have n2: "unat (nr_nodes ?c2) = 2"
    by linarith
  show ?thesis
    using k a(1) b(1) n1 n2 by simp
qed

theorem prom_init_env_uarts_and_sensors_witness:
  "1 \<le> MAX_UARTS example_env_h
   \<and> nr_uarts (loongson_sysconf (prom_init_env example_env_h
        (Lefi_boot_params (example_boot_params ''Loongson-7A1000'' Loongson_3A 4 100 3))
        0 0 boot_env)) = 1
   \<and> nr_sensors (loongson_sysconf (prom_init_env example_env_h
        (Lefi_boot_params (example_boot_params ''Loongson-7A1000'' Loongson_3A 4 100 3))
        0 0 boot_env)) = 3
   \<and> take 4 (sensors (loongson_sysconf (prom_init_env example_env_h
        (Lefi_boot_params (example_boot_params ''Loongson-7A1000'' Loongson_3A 4 100 3))
        0 0 boot_env))) = [101, 102, 103, 0]"
proof -
  have k: "1 \<le> MAX_UARTS example_env_h" and k64: "MAX_UARTS example_env_h = 64"
    "MAX_SENSORS example_env_h = 64"
    by (simp_all add: example_env_h_def)
  have f: "esys_nr_uarts (at_system_offset (example_boot_params name cpu n u s)) = u"
    "esys_nr_sensors (at_system_offset (example_boot_params name cpu n u s)) = s"
    "esys_sensors (at_system_offset (example_boot_params name cpu n u s)) = [101 ..< 165]"
    for name cpu n u s
    by (simp_all add: example_boot_params_def)
  have b: "sensors (loongson_sysconf boot_env) = replicate 64 0"
    by (simp add: boot_env_def)
  have l: "take 3 [101 ..< 165] = [101, 102, 103 :: nat]"
    by (simp add: upt_rec)
  show ?thesis
    using prom_init_env_uarts_and_sensors
        [of "example_boot_params ''Loongson-7A1000'' Loongson_3A 4 100 3" example_env_h 0 0 boot_env]
      k
    by (simp add: Let_def f k64 b l)
qed

end
